theory Spec2Isabelle
  imports Complex_Main "HOL-Library.AList"
begin

section \<open>JSON values and documents\<close>

text \<open>
  Request bodies and stored documents are JSON objects. A document keeps its fields as an
  association list from field names to values, read with \<open>map_of\<close>; a field that is not
  in the list is JavaScript's \<^verbatim>\<open>undefined\<close>. Numbers are the rationals (JSON has no
  \<^verbatim>\<open>NaN\<close>). Identifiers (\<^verbatim>\<open>_id\<close>) are opaque strings.
\<close>

datatype jvalue =
    JNull
  | JBool bool
  | JNum rat
  | JStr string
  | JArr "jvalue list"
  | JObj "(string \<times> jvalue) list"

type_synonym document = "(string \<times> jvalue) list"

text \<open>JavaScript truthiness of \<^verbatim>\<open>obj.field\<close>, as tested by \<^verbatim>\<open>!field\<close>.\<close>

fun truthy :: "jvalue option \<Rightarrow> bool" where
  "truthy None = False"
| "truthy (Some JNull) = False"
| "truthy (Some (JBool b)) = b"
| "truthy (Some (JNum n)) = (n \<noteq> 0)"
| "truthy (Some (JStr s)) = (s \<noteq> [])"
| "truthy (Some (JArr xs)) = True"
| "truthy (Some (JObj fs)) = True"

text \<open>
  What the code throws: \<^verbatim>\<open>new Error(message)\<close> raised by a repository, or a failure
  raised by the storage layer (connection loss, validation, index violation).
\<close>

datatype error = Error string | StorageError string

section \<open>The storage layer: queries\<close>

text \<open>
  A query object maps field names to conditions: equality with a value, or
  \<^verbatim>\<open>{ $regex: pattern, $options: options }\<close>.
\<close>

datatype cond = Equals jvalue | Regex string string

type_synonym query = "(string \<times> cond) list"

subsection \<open>Regular expressions: the fragment that is modelled\<close>

text \<open>
  The store treats the pattern as a regular expression. The model covers the patterns
  built from literal ASCII characters and the wildcard \<^verbatim>\<open>.\<close> (any character but a
  newline), matched against ASCII text. A pattern that uses any other metacharacter or a
  character outside ASCII is outside the model, and so is a subject with a character
  outside ASCII (how the store folds the case of such letters is not modelled):
  \<open>compile_regex\<close> returns \<open>None\<close> for such a pattern, \<open>cond_covers\<close> is false for such
  a subject, and the list operations, which alone build such conditions, return \<open>None\<close>
  then, saying nothing about the result.
\<close>

datatype atom = Lit char | AnyChar

definition ascii :: "char \<Rightarrow> bool" where
  "ascii c = (\<not> digit7 c)"

definition metachars :: "char list" where
  "metachars = [CHR 0x5C, CHR ''^'', CHR ''$'', CHR ''.'', CHR ''['', CHR '']'', CHR ''|'',
                CHR ''('', CHR '')'', CHR ''?'', CHR ''*'', CHR ''+'', CHR ''{'', CHR ''}'']"

fun compile_regex :: "string \<Rightarrow> atom list option" where
  "compile_regex [] = Some []"
| "compile_regex (c # cs) =
     (if c = CHR ''.'' then map_option (\<lambda>as. AnyChar # as) (compile_regex cs)
      else if c \<in> set metachars \<or> \<not> ascii c then None
      else map_option (\<lambda>as. Lit c # as) (compile_regex cs))"

text \<open>Case folding of the option \<^verbatim>\<open>i\<close>, for ASCII characters.\<close>

definition to_lower :: "char \<Rightarrow> char" where
  "to_lower c =
     (case map_of (zip ''ABCDEFGHIJKLMNOPQRSTUVWXYZ'' ''abcdefghijklmnopqrstuvwxyz'') c of
        Some l \<Rightarrow> l
      | None \<Rightarrow> c)"

definition fold_case :: "bool \<Rightarrow> char \<Rightarrow> char" where
  "fold_case ci c = (if ci then to_lower c else c)"

fun atom_matches :: "bool \<Rightarrow> atom \<Rightarrow> char \<Rightarrow> bool" where
  "atom_matches ci (Lit x) c = (fold_case ci x = fold_case ci c)"
| "atom_matches ci AnyChar c = (c \<noteq> CHR 0x0A)"

text \<open>The pattern matches at the start of the subject.\<close>

fun matches_here :: "bool \<Rightarrow> atom list \<Rightarrow> string \<Rightarrow> bool" where
  "matches_here ci [] cs = True"
| "matches_here ci (a # as) [] = False"
| "matches_here ci (a # as) (c # cs) = (atom_matches ci a c \<and> matches_here ci as cs)"

text \<open>An unanchored pattern matches when it matches at some position of the subject.\<close>

fun regex_search :: "bool \<Rightarrow> atom list \<Rightarrow> string \<Rightarrow> bool" where
  "regex_search ci as [] = matches_here ci as []"
| "regex_search ci as (c # cs) = (matches_here ci as (c # cs) \<or> regex_search ci as cs)"

fun cond_holds :: "cond \<Rightarrow> jvalue option \<Rightarrow> bool" where
  "cond_holds (Equals v) x = (x = Some v)"
| "cond_holds (Regex pattern options) (Some (JStr s)) =
     (case compile_regex pattern of
        Some as \<Rightarrow> regex_search (CHR ''i'' \<in> set options) as s
      | None \<Rightarrow> False)"
| "cond_holds (Regex pattern options) x = False"

fun cond_supported :: "cond \<Rightarrow> bool" where
  "cond_supported (Equals v) = True"
| "cond_supported (Regex pattern options) = (compile_regex pattern \<noteq> None)"

definition query_supported :: "query \<Rightarrow> bool" where
  "query_supported q = list_all (\<lambda>kc. cond_supported (snd kc)) q"

fun cond_covers :: "cond \<Rightarrow> jvalue option \<Rightarrow> bool" where
  "cond_covers (Regex pattern options) (Some (JStr s)) = list_all ascii s"
| "cond_covers c x = True"

definition subject_supported :: "query \<Rightarrow> document \<Rightarrow> bool" where
  "subject_supported q d = list_all (\<lambda>kc. cond_covers (snd kc) (map_of d (fst kc))) q"

definition matches :: "query \<Rightarrow> document \<Rightarrow> bool" where
  "matches q d = list_all (\<lambda>kc. cond_holds (snd kc) (map_of d (fst kc))) q"

section \<open>The storage layer: schemas and collections\<close>

text \<open>
  A schema lists the declared fields of a model with what the repositories' behaviour
  depends on: whether the field is required, its default and whether it carries a unique
  index. Type casts, the dropping of undeclared fields and the automatic
  \<^verbatim>\<open>createdAt\<close>/\<^verbatim>\<open>updatedAt\<close> stamps are not modelled (there is no clock), and
  \<^verbatim>\<open>populate\<close>, \<^verbatim>\<open>lean\<close> and \<^verbatim>\<open>toObject\<close> return the document as stored.
\<close>

datatype ftype = TString | TBoolean | TNumber | TDate | TObjectId | TStringArray

record field_spec =
  fname :: string
  ftype :: ftype
  required :: bool
  dflt :: "jvalue option"
  uniq :: bool

type_synonym schema = "field_spec list"

definition fld :: "string \<Rightarrow> ftype \<Rightarrow> bool \<Rightarrow> jvalue option \<Rightarrow> bool \<Rightarrow> field_spec" where
  "fld n t r d u = \<lparr>fname = n, ftype = t, required = r, dflt = d, uniq = u\<rparr>"

text \<open>\<^verbatim>\<open>CustomerSchema\<close> of \<^verbatim>\<open>src/database/models/customer.ts\<close>.\<close>

definition CustomerSchema :: schema where
  "CustomerSchema =
    [fld ''email'' TString True None True,
     fld ''isActive'' TBoolean False (Some (JBool True)) False,
     fld ''isDeleted'' TBoolean False (Some (JBool False)) False,
     fld ''name'' TString True None False,
     fld ''password'' TString True None False]"

text \<open>\<^verbatim>\<open>ServiceCompanySchema\<close> of \<^verbatim>\<open>src/database/models/serviceCompany.ts\<close>.\<close>

definition ServiceCompanySchema :: schema where
  "ServiceCompanySchema =
    [fld ''name'' TString True None False,
     fld ''address'' TString True None False,
     fld ''description'' TString False None False,
     fld ''map'' TString False None False,
     fld ''url'' TString False None False,
     fld ''isActive'' TBoolean False (Some (JBool True)) False,
     fld ''isDeleted'' TBoolean False (Some (JBool False)) False]"

text \<open>\<^verbatim>\<open>TimesheetSchema\<close> of \<^verbatim>\<open>src/database/models/timesheet.ts\<close>.\<close>

definition TimesheetSchema :: schema where
  "TimesheetSchema =
    [fld ''activity'' TObjectId True None False,
     fld ''worker'' TObjectId True None False,
     fld ''manager'' TObjectId True None False,
     fld ''startTime'' TDate True None False,
     fld ''endTime'' TDate True None False,
     fld ''hoursSpent'' TNumber True None False,
     fld ''date'' TDate True None False,
     fld ''file'' TString True None False,
     fld ''isPending'' TBoolean False (Some (JBool True)) False,
     fld ''isRejected'' TBoolean False (Some (JBool False)) False,
     fld ''isAccepted'' TBoolean False (Some (JBool False)) False,
     fld ''isResubmitted'' TBoolean False (Some (JBool False)) False,
     fld ''rejectionReason'' TStringArray False (Some (JArr [])) False]"

text \<open>
  Modelled from the spec: the model files of ActivityManager and ProjectStatus
  (\<^verbatim>\<open>@database/models/Activitymanager\<close>, \<^verbatim>\<open>../models/projectStatus\<close>) are not among the
  sources. The spec's data model gives every entity creation-time fields and, for Manager,
  the soft-delete and active flags; the repositories use the fields \<^verbatim>\<open>name\<close>,
  \<^verbatim>\<open>admin\<close> and \<^verbatim>\<open>isDeleted\<close>. No unique index is known for either.
\<close>

definition ActivityManagerSchema :: schema where
  "ActivityManagerSchema =
    [fld ''name'' TString False None False,
     fld ''admin'' TObjectId False None False,
     fld ''isActive'' TBoolean False (Some (JBool True)) False,
     fld ''isDeleted'' TBoolean False (Some (JBool False)) False]"

definition ProjectStatusSchema :: schema where
  "ProjectStatusSchema = [fld ''name'' TString False None False]"

subsection \<open>Reading\<close>

definition doc_id :: "document \<Rightarrow> jvalue option" where
  "doc_id d = map_of d ''_id''"

text \<open>Identifiers are unique within a collection (\<^verbatim>\<open>_id\<close> is the primary key).\<close>

definition wf_store :: "document list \<Rightarrow> bool" where
  "wf_store ds = distinct (map doc_id ds)"

definition find_docs :: "query \<Rightarrow> document list \<Rightarrow> document list" where
  "find_docs q ds = filter (matches q) ds"

definition countDocuments :: "query \<Rightarrow> document list \<Rightarrow> nat" where
  "countDocuments q ds = length (filter (matches q) ds)"

definition findOne :: "query \<Rightarrow> document list \<Rightarrow> document option" where
  "findOne q ds = List.find (matches q) ds"

definition findById :: "string \<Rightarrow> document list \<Rightarrow> document option" where
  "findById oid ds = findOne [(''_id'', Equals (JStr oid))] ds"

subsection \<open>Writing\<close>

text \<open>
  A plain update object sets each of its fields (\<^verbatim>\<open>$set\<close>): the updated document
  reads, through \<open>map_of\<close>, as the update where the update has the field and as before
  elsewhere.
\<close>

definition apply_update :: "document \<Rightarrow> document \<Rightarrow> document" where
  "apply_update upd d = foldr (\<lambda>kv acc. AList.update (fst kv) (snd kv) acc) upd d"

fun replace_first :: "('a \<Rightarrow> bool) \<Rightarrow> 'a \<Rightarrow> 'a list \<Rightarrow> 'a list" where
  "replace_first P y [] = []"
| "replace_first P y (x # xs) = (if P x then y # xs else x # replace_first P y xs)"

fun remove_first :: "('a \<Rightarrow> bool) \<Rightarrow> 'a list \<Rightarrow> 'a list" where
  "remove_first P [] = []"
| "remove_first P (x # xs) = (if P x then xs else x # remove_first P xs)"

definition unique_fields :: "schema \<Rightarrow> string list" where
  "unique_fields sch = map fname (filter uniq sch)"

text \<open>Some other document already holds the value of a uniquely indexed field.\<close>

definition unique_clash :: "string list \<Rightarrow> document \<Rightarrow> document list \<Rightarrow> bool" where
  "unique_clash keys d others =
     list_ex (\<lambda>k. list_ex (\<lambda>other. map_of other k = map_of d k) others) keys"

text \<open>
  \<^verbatim>\<open>findOneAndUpdate(filter, update, { new: true })\<close>: the first document that matches
  is updated and returned as updated; \<^verbatim>\<open>null\<close> when none matches. The store refuses
  an update that changes \<^verbatim>\<open>_id\<close>, or that sets a uniquely indexed field to a value
  another document holds.
\<close>

definition findOneAndUpdate ::
  "schema \<Rightarrow> query \<Rightarrow> document \<Rightarrow> document list \<Rightarrow> error + (document option \<times> document list)" where
  "findOneAndUpdate sch q upd ds =
     (case findOne q ds of
        None \<Rightarrow> Inr (None, ds)
      | Some d \<Rightarrow>
          (let d' = apply_update upd d in
           if doc_id d' \<noteq> doc_id d then
             Inl (StorageError ''Performing an update on the path _id would modify the immutable field _id'')
           else if unique_clash (filter (\<lambda>k. map_of upd k \<noteq> None) (unique_fields sch)) d'
                     (remove_first (matches q) ds) then
             Inl (StorageError ''E11000 duplicate key error'')
           else Inr (Some d', replace_first (matches q) d' ds)))"

definition findByIdAndUpdate ::
  "schema \<Rightarrow> string \<Rightarrow> document \<Rightarrow> document list \<Rightarrow> error + (document option \<times> document list)" where
  "findByIdAndUpdate sch oid upd ds = findOneAndUpdate sch [(''_id'', Equals (JStr oid))] upd ds"

text \<open>\<^verbatim>\<open>findByIdAndDelete(id)\<close>: the document is removed and returned; \<^verbatim>\<open>null\<close> when absent.\<close>

definition findByIdAndDelete :: "string \<Rightarrow> document list \<Rightarrow> document option \<times> document list" where
  "findByIdAndDelete oid ds =
     (findOne [(''_id'', Equals (JStr oid))] ds,
      remove_first (matches [(''_id'', Equals (JStr oid))]) ds)"

text \<open>
  \<^verbatim>\<open>Model.create(data)\<close>. The identifier is the one in the data or else \<open>fresh\<close>, the
  value the identifier generator supplies; defaults fill the absent fields; required
  fields must be present; the identifier and the uniquely indexed fields must not clash
  with a stored document. An empty string does not pass on a required path: it is empty
  (String), is cast to \<^verbatim>\<open>null\<close> (Number, Date) or cannot be cast (ObjectId, Boolean).
\<close>

definition with_id :: "string \<Rightarrow> document \<Rightarrow> document" where
  "with_id fresh body = (if map_of body ''_id'' = None then (''_id'', JStr fresh) # body else body)"

definition with_defaults :: "schema \<Rightarrow> document \<Rightarrow> document" where
  "with_defaults sch body =
     fold (\<lambda>f acc. case dflt f of
                      Some v \<Rightarrow> (if map_of acc (fname f) = None then acc @ [(fname f, v)] else acc)
                    | None \<Rightarrow> acc) sch body"

definition absent :: "ftype \<Rightarrow> jvalue option \<Rightarrow> bool" where
  "absent t x =
     (x = None \<or> x = Some JNull
      \<or> (x = Some (JStr []) \<and> t \<in> set [TString, TNumber, TDate, TObjectId, TBoolean]))"

definition missing_required :: "schema \<Rightarrow> document \<Rightarrow> bool" where
  "missing_required sch d = list_ex (\<lambda>f. required f \<and> absent (ftype f) (map_of d (fname f))) sch"

definition create ::
  "schema \<Rightarrow> string \<Rightarrow> document \<Rightarrow> document list \<Rightarrow> error + (document \<times> document list)" where
  "create sch fresh body ds =
     (let d = with_defaults sch (with_id fresh body) in
      if missing_required sch d then Inl (StorageError ''ValidationError'')
      else if list_ex (\<lambda>other. doc_id other = doc_id d) ds \<or> unique_clash (unique_fields sch) d ds then
        Inl (StorageError ''E11000 duplicate key error'')
      else Inr (d, ds @ [d]))"

section \<open>Pagination\<close>

text \<open>
  \<^verbatim>\<open>IPagination\<close>: what \<^verbatim>\<open>paginationHandler(req)\<close> extracts from the query string. The
  list operations are modelled for positive integers \<open>page\<close> and \<open>limit\<close>, as the spec
  gives them, for search patterns of the modelled fragment and for stores whose searched
  field is ASCII text; otherwise they return \<open>None\<close>, which says nothing about the
  result.
\<close>

record pagination =
  page :: int
  limit :: int

record listing =
  data :: "document list"
  totalCount :: nat
  currentPage :: int
  totalPages :: int

text \<open>\<^verbatim>\<open>Math.ceil(totalCount / limit)\<close>, for a positive limit.\<close>

definition ceil_div :: "nat \<Rightarrow> int \<Rightarrow> int" where
  "ceil_div n l = - ((- int n) div l)"

text \<open>
  \<^verbatim>\<open>.skip(s).limit(l)\<close> on a result (the store skips first, whichever is written
  first), for \<open>s \<ge> 0\<close> and \<open>l \<ge> 1\<close>.
\<close>

definition skip_limit :: "int \<Rightarrow> int \<Rightarrow> 'a list \<Rightarrow> 'a list" where
  "skip_limit s l xs = take (nat l) (drop (nat s) xs)"

definition listing_supported :: "pagination \<Rightarrow> query \<Rightarrow> document list \<Rightarrow> bool" where
  "listing_supported pagination q ds =
     (1 \<le> page pagination \<and> 1 \<le> limit pagination \<and> query_supported q
      \<and> list_all (subject_supported q) ds)"

section \<open>The world of one repository\<close>

text \<open>
  Each repository works on the collection of its own model. \<open>docs\<close> is the collection,
  \<open>errlog\<close> what \<^verbatim>\<open>logError(error, req, label)\<close> has recorded, and \<open>fault\<close> the failure,
  if any, with which the storage layer rejects the calls made to it (a lost connection,
  say): when it is set, the first storage call of a method throws it.
\<close>

record world =
  docs :: "document list"
  errlog :: "(string \<times> error) list"
  fault :: "error option"

definition logError :: "error \<Rightarrow> string \<Rightarrow> world \<Rightarrow> world" where
  "logError e label w = w\<lparr>errlog := errlog w @ [(label, e)]\<rparr>"

text \<open>\<^verbatim>\<open>catch (error) { await logError(error, req, label); throw error; }\<close>\<close>

definition catch_log :: "string \<Rightarrow> (error + 'a) \<times> world \<Rightarrow> (error + 'a) \<times> world" where
  "catch_log label rw =
     (case fst rw of
        Inl e \<Rightarrow> (Inl e, logError e label (snd rw))
      | Inr x \<Rightarrow> rw)"

section \<open>CustomerRepository\<close>

text \<open>
  The repositories of \<^verbatim>\<open>src/database/repositories\<close>. Each method runs its storage calls
  in a \<^verbatim>\<open>try\<close> block whose \<^verbatim>\<open>catch\<close> logs under the method's label and rethrows. \<open>search\<close>
  is the string \<^verbatim>\<open>searchHandler(req)\<close> extracts; \<^verbatim>\<open>if (search)\<close> holds for a non-empty one.
\<close>

definition CustomerRepository_getCustomers ::
  "pagination \<Rightarrow> string \<Rightarrow> world \<Rightarrow> ((error + listing) \<times> world) option" where
  "CustomerRepository_getCustomers pagination search w =
     (let query = [(''isDeleted'', Equals (JBool False))] @ (if search \<noteq> [] then [(''name'', Regex search ''i'')] else [])
      in if \<not> listing_supported pagination query (docs w) then None
         else Some (catch_log ''CustomerRepository-getCustomers''
           (case fault w of
              Some e \<Rightarrow> (Inl e, w)
            | None \<Rightarrow>
                (let customers = skip_limit ((page pagination - 1) * limit pagination) (limit pagination)
                                 (find_docs query (docs w));
                     count = countDocuments query (docs w);
                     pages = ceil_div count (limit pagination)
                 in (Inr \<lparr>data = customers, totalCount = count,
                          currentPage = page pagination, totalPages = pages\<rparr>, w)))))"

definition CustomerRepository_getCustomerById :: "string \<Rightarrow> world \<Rightarrow> (error + document) \<times> world" where
  "CustomerRepository_getCustomerById oid w =
     catch_log ''CustomerRepository-getCustomerById''
       (case fault w of
          Some e \<Rightarrow> (Inl e, w)
        | None \<Rightarrow>
            (case findOne [(''_id'', Equals (JStr oid)), (''isDeleted'', Equals (JBool False))] (docs w) of
               None \<Rightarrow> (Inl (Error ''Customer not found''), w)
             | Some customerDoc \<Rightarrow> (Inr customerDoc, w)))"

definition CustomerRepository_createCustomer ::
  "string \<Rightarrow> document \<Rightarrow> world \<Rightarrow> (error + document) \<times> world" where
  "CustomerRepository_createCustomer fresh customerData w =
     catch_log ''CustomerRepository-createCustomer''
       (case fault w of
          Some e \<Rightarrow> (Inl e, w)
        | None \<Rightarrow>
            (case create CustomerSchema fresh customerData (docs w) of
               Inl e \<Rightarrow> (Inl e, w)
             | Inr (newCustomer, ds) \<Rightarrow> (Inr newCustomer, w\<lparr>docs := ds\<rparr>)))"

definition CustomerRepository_updateCustomer ::
  "string \<Rightarrow> document \<Rightarrow> world \<Rightarrow> (error + document) \<times> world" where
  "CustomerRepository_updateCustomer oid customerData w =
     catch_log ''CustomerRepository-updateCustomer''
       (case fault w of
          Some e \<Rightarrow> (Inl e, w)
        | None \<Rightarrow>
            (case findOneAndUpdate CustomerSchema
                    [(''_id'', Equals (JStr oid)), (''isDeleted'', Equals (JBool False))]
                    customerData (docs w) of
               Inl e \<Rightarrow> (Inl e, w)
             | Inr (None, ds) \<Rightarrow> (Inl (Error ''Failed to update customer''), w)
             | Inr (Some updatedCustomer, ds) \<Rightarrow> (Inr updatedCustomer, w\<lparr>docs := ds\<rparr>)))"

definition CustomerRepository_deleteCustomer :: "string \<Rightarrow> world \<Rightarrow> (error + document) \<times> world" where
  "CustomerRepository_deleteCustomer oid w =
     catch_log ''CustomerRepository-deleteCustomer''
       (case fault w of
          Some e \<Rightarrow> (Inl e, w)
        | None \<Rightarrow>
            (case findOneAndUpdate CustomerSchema
                    [(''_id'', Equals (JStr oid)), (''isDeleted'', Equals (JBool False))]
                    [(''isDeleted'', JBool True)] (docs w) of
               Inl e \<Rightarrow> (Inl e, w)
             | Inr (None, ds) \<Rightarrow> (Inl (Error ''Failed to delete customer''), w)
             | Inr (Some deletedCustomer, ds) \<Rightarrow> (Inr deletedCustomer, w\<lparr>docs := ds\<rparr>)))"

section \<open>ActivityManagerRepository\<close>

definition ActivityManagerRepository_getActivityManagers ::
  "pagination \<Rightarrow> string \<Rightarrow> world \<Rightarrow> ((error + listing) \<times> world) option" where
  "ActivityManagerRepository_getActivityManagers pagination search w =
     (let query = [(''isDeleted'', Equals (JBool False))] @ (if search \<noteq> [] then [(''name'', Regex search ''i'')] else [])
      in if \<not> listing_supported pagination query (docs w) then None
         else Some (catch_log ''ManagerRepository-getManagers''
           (case fault w of
              Some e \<Rightarrow> (Inl e, w)
            | None \<Rightarrow>
                (let managers = skip_limit ((page pagination - 1) * limit pagination) (limit pagination)
                                 (find_docs query (docs w));
                     count = countDocuments query (docs w);
                     pages = ceil_div count (limit pagination)
                 in (Inr \<lparr>data = managers, totalCount = count,
                          currentPage = page pagination, totalPages = pages\<rparr>, w)))))"

definition ActivityManagerRepository_getManagerById :: "string \<Rightarrow> world \<Rightarrow> (error + document) \<times> world" where
  "ActivityManagerRepository_getManagerById oid w =
     catch_log ''ManagerRepository-getManagerById''
       (case fault w of
          Some e \<Rightarrow> (Inl e, w)
        | None \<Rightarrow>
            (case findOne [(''_id'', Equals (JStr oid)), (''isDeleted'', Equals (JBool False))] (docs w) of
               None \<Rightarrow> (Inl (Error ''Manager not found''), w)
             | Some managerDoc \<Rightarrow> (Inr managerDoc, w)))"

definition ActivityManagerRepository_createManager ::
  "string \<Rightarrow> document \<Rightarrow> world \<Rightarrow> (error + document) \<times> world" where
  "ActivityManagerRepository_createManager fresh managerData w =
     catch_log ''ManagerRepository-createManager''
       (case fault w of
          Some e \<Rightarrow> (Inl e, w)
        | None \<Rightarrow>
            (case create ActivityManagerSchema fresh managerData (docs w) of
               Inl e \<Rightarrow> (Inl e, w)
             | Inr (newManager, ds) \<Rightarrow> (Inr newManager, w\<lparr>docs := ds\<rparr>)))"

definition ActivityManagerRepository_updateManager ::
  "string \<Rightarrow> document \<Rightarrow> world \<Rightarrow> (error + document) \<times> world" where
  "ActivityManagerRepository_updateManager oid managerData w =
     catch_log ''ManagerRepository-updateManager''
       (case fault w of
          Some e \<Rightarrow> (Inl e, w)
        | None \<Rightarrow>
            (case findOneAndUpdate ActivityManagerSchema
                    [(''_id'', Equals (JStr oid)), (''isDeleted'', Equals (JBool False))]
                    managerData (docs w) of
               Inl e \<Rightarrow> (Inl e, w)
             | Inr (None, ds) \<Rightarrow> (Inl (Error ''Failed to update manager''), w)
             | Inr (Some updatedManager, ds) \<Rightarrow> (Inr updatedManager, w\<lparr>docs := ds\<rparr>)))"

definition ActivityManagerRepository_deleteManager :: "string \<Rightarrow> world \<Rightarrow> (error + document) \<times> world" where
  "ActivityManagerRepository_deleteManager oid w =
     catch_log ''ManagerRepository-deleteManager''
       (case fault w of
          Some e \<Rightarrow> (Inl e, w)
        | None \<Rightarrow>
            (case findOneAndUpdate ActivityManagerSchema
                    [(''_id'', Equals (JStr oid)), (''isDeleted'', Equals (JBool False))]
                    [(''isDeleted'', JBool True)] (docs w) of
               Inl e \<Rightarrow> (Inl e, w)
             | Inr (None, ds) \<Rightarrow> (Inl (Error ''Failed to delete manager''), w)
             | Inr (Some deletedManager, ds) \<Rightarrow> (Inr deletedManager, w\<lparr>docs := ds\<rparr>)))"

section \<open>ProjectStatusRepository\<close>

definition ProjectStatusRepository_getProjectStatuses ::
  "pagination \<Rightarrow> string \<Rightarrow> world \<Rightarrow> ((error + listing) \<times> world) option" where
  "ProjectStatusRepository_getProjectStatuses pagination search w =
     (let query = [] @ (if search \<noteq> [] then [(''name'', Regex search ''i'')] else [])
      in if \<not> listing_supported pagination query (docs w) then None
         else Some (catch_log ''ProjectStatusRepository-getProjectStatuses''
           (case fault w of
              Some e \<Rightarrow> (Inl e, w)
            | None \<Rightarrow>
                (let projectStatuses = skip_limit ((page pagination - 1) * limit pagination) (limit pagination)
                                 (find_docs query (docs w));
                     count = countDocuments query (docs w);
                     pages = ceil_div count (limit pagination)
                 in (Inr \<lparr>data = projectStatuses, totalCount = count,
                          currentPage = page pagination, totalPages = pages\<rparr>, w)))))"

definition ProjectStatusRepository_getProjectStatusById :: "string \<Rightarrow> world \<Rightarrow> (error + document) \<times> world" where
  "ProjectStatusRepository_getProjectStatusById oid w =
     catch_log ''ProjectStatusRepository-getProjectStatusById''
       (case fault w of
          Some e \<Rightarrow> (Inl e, w)
        | None \<Rightarrow>
            (case findById oid (docs w) of
               None \<Rightarrow> (Inl (Error ''Project Status not found''), w)
             | Some projectStatus \<Rightarrow> (Inr projectStatus, w)))"

definition ProjectStatusRepository_createProjectStatus ::
  "string \<Rightarrow> document \<Rightarrow> world \<Rightarrow> (error + document) \<times> world" where
  "ProjectStatusRepository_createProjectStatus fresh projectStatusData w =
     catch_log ''ProjectStatusRepository-createProjectStatus''
       (case fault w of
          Some e \<Rightarrow> (Inl e, w)
        | None \<Rightarrow>
            (case create ProjectStatusSchema fresh projectStatusData (docs w) of
               Inl e \<Rightarrow> (Inl e, w)
             | Inr (newProjectStatus, ds) \<Rightarrow> (Inr newProjectStatus, w\<lparr>docs := ds\<rparr>)))"

definition ProjectStatusRepository_updateProjectStatus ::
  "string \<Rightarrow> document \<Rightarrow> world \<Rightarrow> (error + document) \<times> world" where
  "ProjectStatusRepository_updateProjectStatus oid projectStatusData w =
     catch_log ''ProjectStatusRepository-updateProjectStatus''
       (case fault w of
          Some e \<Rightarrow> (Inl e, w)
        | None \<Rightarrow>
            (case findByIdAndUpdate ProjectStatusSchema oid projectStatusData (docs w) of
               Inl e \<Rightarrow> (Inl e, w)
             | Inr (None, ds) \<Rightarrow> (Inl (Error ''Failed to update project status''), w)
             | Inr (Some updatedProjectStatus, ds) \<Rightarrow> (Inr updatedProjectStatus, w\<lparr>docs := ds\<rparr>)))"

definition ProjectStatusRepository_deleteProjectStatus :: "string \<Rightarrow> world \<Rightarrow> (error + document) \<times> world" where
  "ProjectStatusRepository_deleteProjectStatus oid w =
     catch_log ''ProjectStatusRepository-deleteProjectStatus''
       (case fault w of
          Some e \<Rightarrow> (Inl e, w)
        | None \<Rightarrow>
            (case findByIdAndDelete oid (docs w) of
               (None, ds) \<Rightarrow> (Inl (Error ''Failed to delete project status''), w)
             | (Some deletedProjectStatus, ds) \<Rightarrow> (Inr deletedProjectStatus, w\<lparr>docs := ds\<rparr>)))"

section \<open>ServiceCompanyRepository\<close>

definition ServiceCompanyRepository_getServiceCompanies ::
  "pagination \<Rightarrow> string \<Rightarrow> world \<Rightarrow> ((error + listing) \<times> world) option" where
  "ServiceCompanyRepository_getServiceCompanies pagination search w =
     (let query = [] @ (if search \<noteq> [] then [(''name'', Regex search ''i'')] else [])
      in if \<not> listing_supported pagination query (docs w) then None
         else Some (catch_log ''ServiceCompanyRepository-getServiceCompanies''
           (case fault w of
              Some e \<Rightarrow> (Inl e, w)
            | None \<Rightarrow>
                (let serviceCompanies = skip_limit ((page pagination - 1) * limit pagination) (limit pagination)
                                 (find_docs query (docs w));
                     count = countDocuments query (docs w);
                     pages = ceil_div count (limit pagination)
                 in (Inr \<lparr>data = serviceCompanies, totalCount = count,
                          currentPage = page pagination, totalPages = pages\<rparr>, w)))))"

definition ServiceCompanyRepository_getServiceCompanyById :: "string \<Rightarrow> world \<Rightarrow> (error + document) \<times> world" where
  "ServiceCompanyRepository_getServiceCompanyById oid w =
     catch_log ''ServiceCompanyRepository-getServiceCompanyById''
       (case fault w of
          Some e \<Rightarrow> (Inl e, w)
        | None \<Rightarrow>
            (case findById oid (docs w) of
               None \<Rightarrow> (Inl (Error ''ServiceCompany not found''), w)
             | Some serviceCompanyDoc \<Rightarrow> (Inr serviceCompanyDoc, w)))"

definition ServiceCompanyRepository_createServiceCompany ::
  "string \<Rightarrow> document \<Rightarrow> world \<Rightarrow> (error + document) \<times> world" where
  "ServiceCompanyRepository_createServiceCompany fresh serviceCompanyData w =
     catch_log ''ServiceCompanyRepository-createServiceCompany''
       (case fault w of
          Some e \<Rightarrow> (Inl e, w)
        | None \<Rightarrow>
            (case create ServiceCompanySchema fresh serviceCompanyData (docs w) of
               Inl e \<Rightarrow> (Inl e, w)
             | Inr (newServiceCompany, ds) \<Rightarrow> (Inr newServiceCompany, w\<lparr>docs := ds\<rparr>)))"

definition ServiceCompanyRepository_updateServiceCompany ::
  "string \<Rightarrow> document \<Rightarrow> world \<Rightarrow> (error + document) \<times> world" where
  "ServiceCompanyRepository_updateServiceCompany oid serviceCompanyData w =
     catch_log ''ServiceCompanyRepository-updateServiceCompany''
       (case fault w of
          Some e \<Rightarrow> (Inl e, w)
        | None \<Rightarrow>
            (case findByIdAndUpdate ServiceCompanySchema oid serviceCompanyData (docs w) of
               Inl e \<Rightarrow> (Inl e, w)
             | Inr (None, ds) \<Rightarrow> (Inl (Error ''Failed to update ServiceCompany''), w)
             | Inr (Some updatedServiceCompany, ds) \<Rightarrow> (Inr updatedServiceCompany, w\<lparr>docs := ds\<rparr>)))"

definition ServiceCompanyRepository_deleteServiceCompany :: "string \<Rightarrow> world \<Rightarrow> (error + document) \<times> world" where
  "ServiceCompanyRepository_deleteServiceCompany oid w =
     catch_log ''ServiceCompanyRepository-deleteServiceCompany''
       (case fault w of
          Some e \<Rightarrow> (Inl e, w)
        | None \<Rightarrow>
            (case findByIdAndDelete oid (docs w) of
               (None, ds) \<Rightarrow> (Inl (Error ''Failed to delete ServiceCompany''), w)
             | (Some deletedServiceCompany, ds) \<Rightarrow> (Inr deletedServiceCompany, w\<lparr>docs := ds\<rparr>)))"

section \<open>TimesheetRepository\<close>

text \<open>The query of \<^verbatim>\<open>getTimesheets\<close> has no \<^verbatim>\<open>skip\<close> and no \<^verbatim>\<open>limit\<close> call.\<close>

definition TimesheetRepository_getTimesheets ::
  "pagination \<Rightarrow> string \<Rightarrow> world \<Rightarrow> ((error + listing) \<times> world) option" where
  "TimesheetRepository_getTimesheets pagination search w =
     (let query = [] @ (if search \<noteq> [] then [(''file'', Regex search ''i'')] else [])
      in if \<not> listing_supported pagination query (docs w) then None
         else Some (catch_log ''TimesheetRepository-getTimesheets''
           (case fault w of
              Some e \<Rightarrow> (Inl e, w)
            | None \<Rightarrow>
                (let timesheets = find_docs query (docs w);
                     count = countDocuments query (docs w);
                     pages = ceil_div count (limit pagination)
                 in (Inr \<lparr>data = timesheets, totalCount = count,
                          currentPage = page pagination, totalPages = pages\<rparr>, w)))))"

definition TimesheetRepository_getTimesheetById :: "string \<Rightarrow> world \<Rightarrow> (error + document) \<times> world" where
  "TimesheetRepository_getTimesheetById oid w =
     catch_log ''TimesheetRepository-getTimesheetById''
       (case fault w of
          Some e \<Rightarrow> (Inl e, w)
        | None \<Rightarrow>
            (case findById oid (docs w) of
               None \<Rightarrow> (Inl (Error ''Timesheet not found''), w)
             | Some timesheet \<Rightarrow> (Inr timesheet, w)))"

definition TimesheetRepository_createTimesheet ::
  "string \<Rightarrow> document \<Rightarrow> world \<Rightarrow> (error + document) \<times> world" where
  "TimesheetRepository_createTimesheet fresh timesheetData w =
     catch_log ''TimesheetRepository-createTimesheet''
       (case fault w of
          Some e \<Rightarrow> (Inl e, w)
        | None \<Rightarrow>
            (case create TimesheetSchema fresh timesheetData (docs w) of
               Inl e \<Rightarrow> (Inl e, w)
             | Inr (newTimesheet, ds) \<Rightarrow> (Inr newTimesheet, w\<lparr>docs := ds\<rparr>)))"

definition TimesheetRepository_updateTimesheet ::
  "string \<Rightarrow> document \<Rightarrow> world \<Rightarrow> (error + document) \<times> world" where
  "TimesheetRepository_updateTimesheet oid timesheetData w =
     catch_log ''TimesheetRepository-updateTimesheet''
       (case fault w of
          Some e \<Rightarrow> (Inl e, w)
        | None \<Rightarrow>
            (case findByIdAndUpdate TimesheetSchema oid timesheetData (docs w) of
               Inl e \<Rightarrow> (Inl e, w)
             | Inr (None, ds) \<Rightarrow> (Inl (Error ''Failed to update timesheet''), w)
             | Inr (Some updatedTimesheet, ds) \<Rightarrow> (Inr updatedTimesheet, w\<lparr>docs := ds\<rparr>)))"

definition TimesheetRepository_deleteTimesheet :: "string \<Rightarrow> world \<Rightarrow> (error + document) \<times> world" where
  "TimesheetRepository_deleteTimesheet oid w =
     catch_log ''TimesheetRepository-deleteTimesheet''
       (case fault w of
          Some e \<Rightarrow> (Inl e, w)
        | None \<Rightarrow>
            (case findByIdAndDelete oid (docs w) of
               (None, ds) \<Rightarrow> (Inl (Error ''Failed to delete timesheet''), w)
             | (Some deletedTimesheet, ds) \<Rightarrow> (Inr deletedTimesheet, w\<lparr>docs := ds\<rparr>)))"

section \<open>Requests and responses\<close>

text \<open>
  What the handlers read from a request: the route parameter \<^verbatim>\<open>req.params.id\<close>, the
  parsed JSON body \<^verbatim>\<open>req.body\<close>, and what \<^verbatim>\<open>paginationHandler(req)\<close> and
  \<^verbatim>\<open>searchHandler(req)\<close> extract from the query string.
\<close>

record request =
  req_params_id :: string
  req_body :: document
  req_pagination :: pagination
  req_search :: string

text \<open>
  A response is the call made on \<^verbatim>\<open>res\<close>, with its arguments as the code passes them:
  the status is \<open>None\<close> where the code passes none. The first argument of
  \<^verbatim>\<open>sendError\<close> is the caught error or a string.
\<close>

datatype reason = Thrown error | Message string

datatype sent =
    SendFormatted document string "nat option"
  | SendArrayFormatted listing string "nat option"
  | SendError reason string "nat option"

text \<open>
  Modelled from the spec: the response helpers \<^verbatim>\<open>sendFormatted\<close> and
  \<^verbatim>\<open>sendArrayFormatted\<close> are not among the sources; the spec gives their status as
  ``201 for create, default 200 otherwise'', so a success sent without a status carries
  200. The spec gives no default for \<^verbatim>\<open>sendError\<close>: an error response has the status
  the code passes, if any.
\<close>

definition default_success_status :: nat where
  "default_success_status = 200"

fun http_status :: "sent \<Rightarrow> nat option" where
  "http_status (SendFormatted d message status) =
     Some (case status of None \<Rightarrow> default_success_status | Some n \<Rightarrow> n)"
| "http_status (SendArrayFormatted l message status) =
     Some (case status of None \<Rightarrow> default_success_status | Some n \<Rightarrow> n)"
| "http_status (SendError r message status) = status"

section \<open>ServiceCompanyService\<close>

definition ServiceCompanyService_getServiceCompanies :: "request \<Rightarrow> world \<Rightarrow> (sent \<times> world) option" where
  "ServiceCompanyService_getServiceCompanies req w =
     (case ServiceCompanyRepository_getServiceCompanies (req_pagination req) (req_search req) w of
        None \<Rightarrow> None
      | Some (Inr serviceCompanies, w') \<Rightarrow> Some (SendArrayFormatted serviceCompanies ''ServiceCompanies retrieved successfully'' None, w')
      | Some (Inl e, w') \<Rightarrow>
          Some (SendError (Thrown e) ''ServiceCompanies retrieval failed'' None, logError e ''ServiceCompanyService-getServiceCompanies'' w'))"

definition ServiceCompanyService_getServiceCompany :: "request \<Rightarrow> world \<Rightarrow> sent \<times> world" where
  "ServiceCompanyService_getServiceCompany req w =
     (case ServiceCompanyRepository_getServiceCompanyById (req_params_id req) w of
        (Inr serviceCompany, w') \<Rightarrow> (SendFormatted serviceCompany ''ServiceCompany retrieved successfully'' None, w')
      | (Inl e, w') \<Rightarrow>
          (SendError (Thrown e) ''ServiceCompany retrieval failed'' None, logError e ''ServiceCompanyService-getServiceCompany'' w'))"

definition ServiceCompanyService_createServiceCompany :: "string \<Rightarrow> request \<Rightarrow> world \<Rightarrow> sent \<times> world" where
  "ServiceCompanyService_createServiceCompany fresh req w =
     (case ServiceCompanyRepository_createServiceCompany fresh (req_body req) w of
        (Inr newServiceCompany, w') \<Rightarrow> (SendFormatted newServiceCompany ''ServiceCompany created successfully'' (Some 201), w')
      | (Inl e, w') \<Rightarrow>
          (SendError (Thrown e) ''ServiceCompany creation failed'' None, logError e ''ServiceCompanyService-createServiceCompany'' w'))"

definition ServiceCompanyService_updateServiceCompany :: "request \<Rightarrow> world \<Rightarrow> sent \<times> world" where
  "ServiceCompanyService_updateServiceCompany req w =
     (case ServiceCompanyRepository_updateServiceCompany (req_params_id req) (req_body req) w of
        (Inr updatedServiceCompany, w') \<Rightarrow> (SendFormatted updatedServiceCompany ''ServiceCompany updated successfully'' None, w')
      | (Inl e, w') \<Rightarrow>
          (SendError (Thrown e) ''ServiceCompany update failed'' None, logError e ''ServiceCompanyService-updateServiceCompany'' w'))"

definition ServiceCompanyService_deleteServiceCompany :: "request \<Rightarrow> world \<Rightarrow> sent \<times> world" where
  "ServiceCompanyService_deleteServiceCompany req w =
     (case ServiceCompanyRepository_deleteServiceCompany (req_params_id req) w of
        (Inr deletedServiceCompany, w') \<Rightarrow> (SendFormatted deletedServiceCompany ''ServiceCompany deleted successfully'' None, w')
      | (Inl e, w') \<Rightarrow>
          (SendError (Thrown e) ''ServiceCompany deletion failed'' None, logError e ''ServiceCompanyService-deleteServiceCompany'' w'))"

section \<open>TimesheetService\<close>

definition TimesheetService_getTimesheets :: "request \<Rightarrow> world \<Rightarrow> (sent \<times> world) option" where
  "TimesheetService_getTimesheets req w =
     (case TimesheetRepository_getTimesheets (req_pagination req) (req_search req) w of
        None \<Rightarrow> None
      | Some (Inr timesheets, w') \<Rightarrow> Some (SendArrayFormatted timesheets ''Timesheets retrieved successfully'' None, w')
      | Some (Inl e, w') \<Rightarrow>
          Some (SendError (Thrown e) ''Timesheets retrieval failed'' None, logError e ''TimesheetService-getTimesheets'' w'))"

definition TimesheetService_getTimesheet :: "request \<Rightarrow> world \<Rightarrow> sent \<times> world" where
  "TimesheetService_getTimesheet req w =
     (case TimesheetRepository_getTimesheetById (req_params_id req) w of
        (Inr timesheet, w') \<Rightarrow> (SendFormatted timesheet ''Timesheet retrieved successfully'' None, w')
      | (Inl e, w') \<Rightarrow>
          (SendError (Thrown e) ''Timesheet retrieval failed'' None, logError e ''TimesheetService-getTimesheet'' w'))"

definition TimesheetService_createTimesheet :: "string \<Rightarrow> request \<Rightarrow> world \<Rightarrow> sent \<times> world" where
  "TimesheetService_createTimesheet fresh req w =
     (case TimesheetRepository_createTimesheet fresh (req_body req) w of
        (Inr newTimesheet, w') \<Rightarrow> (SendFormatted newTimesheet ''Timesheet created successfully'' (Some 201), w')
      | (Inl e, w') \<Rightarrow>
          (SendError (Thrown e) ''Timesheet creation failed'' None, logError e ''TimesheetService-createTimesheet'' w'))"

definition TimesheetService_updateTimesheet :: "request \<Rightarrow> world \<Rightarrow> sent \<times> world" where
  "TimesheetService_updateTimesheet req w =
     (case TimesheetRepository_updateTimesheet (req_params_id req) (req_body req) w of
        (Inr updatedTimesheet, w') \<Rightarrow> (SendFormatted updatedTimesheet ''Timesheet updated successfully'' None, w')
      | (Inl e, w') \<Rightarrow>
          (SendError (Thrown e) ''Timesheet update failed'' None, logError e ''TimesheetService-updateTimesheet'' w'))"

definition TimesheetService_deleteTimesheet :: "request \<Rightarrow> world \<Rightarrow> sent \<times> world" where
  "TimesheetService_deleteTimesheet req w =
     (case TimesheetRepository_deleteTimesheet (req_params_id req) w of
        (Inr deletedTimesheet, w') \<Rightarrow> (SendFormatted deletedTimesheet ''Timesheet deleted successfully'' None, w')
      | (Inl e, w') \<Rightarrow>
          (SendError (Thrown e) ''Timesheet deletion failed'' None, logError e ''TimesheetService-deleteTimesheet'' w'))"

section \<open>CustomerService\<close>

definition CustomerService_getCustomers :: "request \<Rightarrow> world \<Rightarrow> (sent \<times> world) option" where
  "CustomerService_getCustomers req w =
     (case CustomerRepository_getCustomers (req_pagination req) (req_search req) w of
        None \<Rightarrow> None
      | Some (Inr customers, w') \<Rightarrow> Some (SendArrayFormatted customers ''Customers retrieved successfully'' None, w')
      | Some (Inl e, w') \<Rightarrow>
          Some (SendError (Thrown e) ''Customers retrieval failed'' None, logError e ''CustomerService-getCustomers'' w'))"

definition CustomerService_getCustomer :: "request \<Rightarrow> world \<Rightarrow> sent \<times> world" where
  "CustomerService_getCustomer req w =
     (case CustomerRepository_getCustomerById (req_params_id req) w of
        (Inr customer, w') \<Rightarrow> (SendFormatted customer ''Customer retrieved successfully'' None, w')
      | (Inl e, w') \<Rightarrow>
          (SendError (Thrown e) ''Customer retrieval failed'' None, logError e ''CustomerService-getCustomer'' w'))"

definition CustomerService_createCustomer :: "string \<Rightarrow> request \<Rightarrow> world \<Rightarrow> sent \<times> world" where
  "CustomerService_createCustomer fresh req w =
     (case CustomerRepository_createCustomer fresh (req_body req) w of
        (Inr newCustomer, w') \<Rightarrow> (SendFormatted newCustomer ''Customer created successfully'' (Some 201), w')
      | (Inl e, w') \<Rightarrow>
          (SendError (Thrown e) ''Customer creation failed'' None, logError e ''CustomerService-createCustomer'' w'))"

definition CustomerService_updateCustomer :: "request \<Rightarrow> world \<Rightarrow> sent \<times> world" where
  "CustomerService_updateCustomer req w =
     (case CustomerRepository_updateCustomer (req_params_id req) (req_body req) w of
        (Inr updatedCustomer, w') \<Rightarrow> (SendFormatted updatedCustomer ''Customer updated successfully'' None, w')
      | (Inl e, w') \<Rightarrow>
          (SendError (Thrown e) ''Customer update failed'' None, logError e ''CustomerService-updateCustomer'' w'))"

definition CustomerService_deleteCustomer :: "request \<Rightarrow> world \<Rightarrow> sent \<times> world" where
  "CustomerService_deleteCustomer req w =
     (case CustomerRepository_deleteCustomer (req_params_id req) w of
        (Inr deletedCustomer, w') \<Rightarrow> (SendFormatted deletedCustomer ''Customer deleted successfully'' None, w')
      | (Inl e, w') \<Rightarrow>
          (SendError (Thrown e) ''Customer deletion failed'' None, logError e ''CustomerService-deleteCustomer'' w'))"

section \<open>Validation middlewares\<close>

text \<open>
  A middleware either answers the request itself (\<open>Some\<close> of the response it sends,
  after which it returns) or calls \<^verbatim>\<open>next()\<close> (\<open>None\<close>). The fields are read from the
  body object by destructuring and tested with \<^verbatim>\<open>!\<close>. The body is an object, as the
  JSON body parser leaves it; reading fields of an object and testing them does not throw,
  so the \<^verbatim>\<open>catch\<close> branch of a middleware (log, status 500) is not reached and has
  no counterpart here.
\<close>

definition ServiceCompanyMiddleware_createServiceCompany :: "request \<Rightarrow> sent option" where
  "ServiceCompanyMiddleware_createServiceCompany req =
     (let name = map_of (req_body req) ''name'';
          address = map_of (req_body req) ''address''
      in if \<not> truthy name \<or> \<not> truthy address then
           Some (SendError (Message ''ValidationError: Name and Address must be provided'')
                   ''Name and Address must be provided'' (Some 400))
         else None)"

definition ServiceCompanyMiddleware_updateServiceCompany :: "request \<Rightarrow> sent option" where
  "ServiceCompanyMiddleware_updateServiceCompany req =
     (let name = map_of (req_body req) ''name'';
          address = map_of (req_body req) ''address''
      in if \<not> truthy name \<and> \<not> truthy address then
           Some (SendError (Message ''ValidationError: At least one field (Name or Address) must be provided'')
                   ''At least one field (Name or Address) must be provided'' (Some 400))
         else None)"

definition ServiceCompanyMiddleware_deleteServiceCompany :: "request \<Rightarrow> sent option" where
  "ServiceCompanyMiddleware_deleteServiceCompany req =
     (if req_params_id req = [] then
        Some (SendError (Message ''ValidationError: ID must be provided'') ''ID must be provided'' (Some 400))
      else None)"

definition TimesheetMiddleware_createTimesheet :: "request \<Rightarrow> sent option" where
  "TimesheetMiddleware_createTimesheet req =
     (let activity = map_of (req_body req) ''activity'';
          worker = map_of (req_body req) ''worker'';
          manager = map_of (req_body req) ''manager'';
          startTime = map_of (req_body req) ''startTime'';
          endTime = map_of (req_body req) ''endTime'';
          file = map_of (req_body req) ''file''
      in if \<not> truthy activity \<or> \<not> truthy worker \<or> \<not> truthy manager \<or> \<not> truthy startTime \<or> \<not> truthy endTime \<or> \<not> truthy file then
           Some (SendError (Message ''ValidationError: Activity, Worker, Manager, StartTime, EndTime, and File must be provided'')
                   ''Activity, Worker, Manager, StartTime, EndTime, and File must be provided'' (Some 400))
         else None)"

definition TimesheetMiddleware_updateTimesheet :: "request \<Rightarrow> sent option" where
  "TimesheetMiddleware_updateTimesheet req =
     (let activity = map_of (req_body req) ''activity'';
          worker = map_of (req_body req) ''worker'';
          manager = map_of (req_body req) ''manager'';
          startTime = map_of (req_body req) ''startTime'';
          endTime = map_of (req_body req) ''endTime'';
          file = map_of (req_body req) ''file''
      in if \<not> truthy activity \<and> \<not> truthy worker \<and> \<not> truthy manager \<and> \<not> truthy startTime \<and> \<not> truthy endTime \<and> \<not> truthy file then
           Some (SendError (Message ''ValidationError: At least one of Activity, Worker, Manager, StartTime, EndTime, or File must be provided'')
                   ''At least one of Activity, Worker, Manager, StartTime, EndTime, or File must be provided'' (Some 400))
         else None)"

definition TimesheetMiddleware_deleteTimesheet :: "request \<Rightarrow> sent option" where
  "TimesheetMiddleware_deleteTimesheet req =
     (if req_params_id req = [] then
        Some (SendError (Message ''ValidationError: ID must be provided'') ''ID must be provided'' (Some 400))
      else None)"

definition TimesheetMiddleware_getTimesheet :: "request \<Rightarrow> sent option" where
  "TimesheetMiddleware_getTimesheet req =
     (if req_params_id req = [] then
        Some (SendError (Message ''ValidationError: ID must be provided'') ''ID must be provided'' (Some 400))
      else None)"

definition CustomerMiddleware_createCustomer :: "request \<Rightarrow> sent option" where
  "CustomerMiddleware_createCustomer req =
     (let email = map_of (req_body req) ''email'';
          name = map_of (req_body req) ''name'';
          password = map_of (req_body req) ''password''
      in if \<not> truthy email \<or> \<not> truthy name \<or> \<not> truthy password then
           Some (SendError (Message ''ValidationError: Email, Name, and Password must be provided'')
                   ''Email, Name, and Password must be provided'' (Some 400))
         else None)"

definition CustomerMiddleware_updateCustomer :: "request \<Rightarrow> sent option" where
  "CustomerMiddleware_updateCustomer req =
     (let email = map_of (req_body req) ''email'';
          name = map_of (req_body req) ''name'';
          password = map_of (req_body req) ''password''
      in if \<not> truthy email \<and> \<not> truthy name \<and> \<not> truthy password then
           Some (SendError (Message ''ValidationError: At least one field (Email, Name, or Password) must be provided'')
                   ''At least one field (Email, Name, or Password) must be provided'' (Some 400))
         else None)"

definition CustomerMiddleware_deleteCustomer :: "request \<Rightarrow> sent option" where
  "CustomerMiddleware_deleteCustomer req =
     (if req_params_id req = [] then
        Some (SendError (Message ''ValidationError: ID must be provided'') ''ID must be provided'' (Some 400))
      else None)"

definition CustomerMiddleware_getCustomer :: "request \<Rightarrow> sent option" where
  "CustomerMiddleware_getCustomer req =
     (if req_params_id req = [] then
        Some (SendError (Message ''ValidationError: ID must be provided'') ''ID must be provided'' (Some 400))
      else None)"

section \<open>Routes\<close>

text \<open>
  A route binds a verb and a path to a handler chain: the validation middleware, where
  there is one, then the service method, which runs only if the middleware called
  \<^verbatim>\<open>next()\<close>.
\<close>

datatype endpoint = GET_all | GET_one | POST | PATCH | DELETE

definition chain :: "sent option \<Rightarrow> sent \<times> world \<Rightarrow> world \<Rightarrow> sent \<times> world" where
  "chain middleware service w =
     (case middleware of
        Some rejection \<Rightarrow> (rejection, w)
      | None \<Rightarrow> service)"

fun serviceCompanyRoute :: "endpoint \<Rightarrow> string \<Rightarrow> request \<Rightarrow> world \<Rightarrow> (sent \<times> world) option" where
  "serviceCompanyRoute GET_all fresh req w = ServiceCompanyService_getServiceCompanies req w"
| "serviceCompanyRoute GET_one fresh req w =
     Some (chain (ServiceCompanyMiddleware_deleteServiceCompany req) (ServiceCompanyService_getServiceCompany req w) w)"
| "serviceCompanyRoute POST fresh req w =
     Some (chain (ServiceCompanyMiddleware_createServiceCompany req) (ServiceCompanyService_createServiceCompany fresh req w) w)"
| "serviceCompanyRoute PATCH fresh req w =
     Some (chain (ServiceCompanyMiddleware_updateServiceCompany req) (ServiceCompanyService_updateServiceCompany req w) w)"
| "serviceCompanyRoute DELETE fresh req w =
     Some (chain (ServiceCompanyMiddleware_deleteServiceCompany req) (ServiceCompanyService_deleteServiceCompany req w) w)"

fun timesheetroute :: "endpoint \<Rightarrow> string \<Rightarrow> request \<Rightarrow> world \<Rightarrow> (sent \<times> world) option" where
  "timesheetroute GET_all fresh req w = TimesheetService_getTimesheets req w"
| "timesheetroute GET_one fresh req w =
     Some (chain (TimesheetMiddleware_getTimesheet req) (TimesheetService_getTimesheet req w) w)"
| "timesheetroute POST fresh req w =
     Some (chain (TimesheetMiddleware_createTimesheet req) (TimesheetService_createTimesheet fresh req w) w)"
| "timesheetroute PATCH fresh req w =
     Some (chain (TimesheetMiddleware_updateTimesheet req) (TimesheetService_updateTimesheet req w) w)"
| "timesheetroute DELETE fresh req w =
     Some (chain (TimesheetMiddleware_deleteTimesheet req) (TimesheetService_deleteTimesheet req w) w)"

fun customerRoute :: "endpoint \<Rightarrow> string \<Rightarrow> request \<Rightarrow> world \<Rightarrow> (sent \<times> world) option" where
  "customerRoute GET_all fresh req w = CustomerService_getCustomers req w"
| "customerRoute GET_one fresh req w =
     Some (chain (CustomerMiddleware_getCustomer req) (CustomerService_getCustomer req w) w)"
| "customerRoute POST fresh req w =
     Some (chain (CustomerMiddleware_createCustomer req) (CustomerService_createCustomer fresh req w) w)"
| "customerRoute PATCH fresh req w =
     Some (chain (CustomerMiddleware_updateCustomer req) (CustomerService_updateCustomer req w) w)"
| "customerRoute DELETE fresh req w =
     Some (chain (CustomerMiddleware_deleteCustomer req) (CustomerService_deleteCustomer req w) w)"

section \<open>Update interfaces\<close>

text \<open>
  The updatable fields of the entities: the members of \<^verbatim>\<open>IUpdateCustomer\<close>,
  \<^verbatim>\<open>IUpdateServiceCompany\<close> and \<^verbatim>\<open>IUpdateTimesheet\<close> in \<^verbatim>\<open>src/interfaces\<close>.
\<close>

definition IUpdateCustomer :: "string list" where
  "IUpdateCustomer = [''email'', ''isActive'', ''isDeleted'', ''name'', ''password'']"

definition IUpdateServiceCompany :: "string list" where
  "IUpdateServiceCompany = [''name'', ''address'', ''description'', ''map'', ''url'']"

definition IUpdateTimesheet :: "string list" where
  "IUpdateTimesheet =
     [''activity'', ''worker'', ''manager'', ''startTime'', ''endTime'', ''hoursSpent'', ''date'',
      ''file'', ''isPending'', ''isRejected'', ''isAccepted'', ''isResubmitted'', ''rejectionReason'']"

definition provides_none :: "string list \<Rightarrow> request \<Rightarrow> bool" where
  "provides_none names req = list_all (\<lambda>k. map_of (req_body req) k = None) names"

section \<open>Case-insensitive substrings\<close>

text \<open>
  The notion the spec uses for search, for ASCII text: \<open>t\<close> contains \<open>s\<close> as a
  substring once both are folded to lower case. \<open>contains\<close> is the executable test; it is shown below to hold
  exactly when the subject splits into a prefix, the sought string and a suffix.
\<close>

fun starts_with :: "'a list \<Rightarrow> 'a list \<Rightarrow> bool" where
  "starts_with [] ys = True"
| "starts_with (x # xs) [] = False"
| "starts_with (x # xs) (y # ys) = (x = y \<and> starts_with xs ys)"

fun contains :: "'a list \<Rightarrow> 'a list \<Rightarrow> bool" where
  "contains xs [] = starts_with xs []"
| "contains xs (y # ys) = (starts_with xs (y # ys) \<or> contains xs ys)"

definition ci_contains :: "string \<Rightarrow> string \<Rightarrow> bool" where
  "ci_contains s t = contains (map to_lower s) (map to_lower t)"

text \<open>The record's text field \<open>k\<close> contains \<open>s\<close>, case-insensitively.\<close>

definition field_contains :: "string \<Rightarrow> string \<Rightarrow> document \<Rightarrow> bool" where
  "field_contains k s d = (case map_of d k of Some (JStr t) \<Rightarrow> ci_contains s t | _ \<Rightarrow> False)"

text \<open>
  The stored records a search string hits, by that notion: all of them for the empty
  string; \<open>live_hits\<close> are those among the records that are not soft-deleted.
\<close>

definition hits :: "string \<Rightarrow> string \<Rightarrow> document list \<Rightarrow> document list" where
  "hits k search ds = filter (\<lambda>d. search = [] \<or> field_contains k search d) ds"

definition live_hits :: "string \<Rightarrow> string \<Rightarrow> document list \<Rightarrow> document list" where
  "live_hits k search ds =
     filter (\<lambda>d. map_of d ''isDeleted'' = Some (JBool False)
                  \<and> (search = [] \<or> field_contains k search d)) ds"

text \<open>An ASCII search string without a regular-expression metacharacter.\<close>

definition literal :: "string \<Rightarrow> bool" where
  "literal s = list_all (\<lambda>c. c \<notin> set metachars \<and> ascii c) s"

text \<open>The field \<open>k\<close> of the record, where it is a string, is ASCII text.\<close>

definition ascii_field :: "string \<Rightarrow> document \<Rightarrow> bool" where
  "ascii_field k d = (case map_of d k of Some (JStr t) \<Rightarrow> list_all ascii t | _ \<Rightarrow> True)"

text \<open>The label the spec gives for the log entries of a repository method.\<close>

definition structured_label :: "string \<Rightarrow> string \<Rightarrow> string" where
  "structured_label entity operation = entity @ ''Repository-'' @ operation"

section \<open>Sample data\<close>

definition acme :: document where
  "acme = [(''_id'', JStr ''c1''), (''email'', JStr ''a@b.com''), (''name'', JStr ''Acme Corp''),
           (''password'', JStr ''x''), (''isActive'', JBool True), (''isDeleted'', JBool False)]"

definition acme_world :: world where
  "acme_world = \<lparr>docs = [acme], errlog = [], fault = None\<rparr>"

text \<open>The customer of \<open>acme\<close> after a soft delete.\<close>

definition struck :: document where
  "struck = [(''_id'', JStr ''c1''), (''email'', JStr ''a@b.com''), (''name'', JStr ''Acme Corp''),
             (''password'', JStr ''x''), (''isActive'', JBool True), (''isDeleted'', JBool True)]"

definition struck_world :: world where
  "struck_world = \<lparr>docs = [struck], errlog = [], fault = None\<rparr>"



definition second_page :: pagination where
  "second_page = \<lparr>page = 2, limit = 1\<rparr>"

definition down_world :: world where
  "down_world = \<lparr>docs = [acme], errlog = [], fault = Some (StorageError ''connection lost'')\<rparr>"



definition no_pagination :: pagination where
  "no_pagination = \<lparr>page = 1, limit = 10\<rparr>"

definition empty_customer_request :: request where
  "empty_customer_request =
     \<lparr>req_params_id = ''c1'', req_body = [(''phone'', JStr ''555'')],
      req_pagination = no_pagination, req_search = []\<rparr>"

definition new_customer_request :: request where
  "new_customer_request =
     \<lparr>req_params_id = ''c1'',
      req_body = [(''email'', JStr ''n@b.com''), (''name'', JStr ''N''), (''password'', JStr ''y'')],
      req_pagination = no_pagination, req_search = []\<rparr>"

definition depot :: document where
  "depot = [(''_id'', JStr ''s1''), (''name'', JStr ''Depot''), (''address'', JStr ''1 Main St''),
            (''isActive'', JBool True), (''isDeleted'', JBool False)]"

definition depot_world :: world where
  "depot_world = \<lparr>docs = [depot], errlog = [], fault = None\<rparr>"

definition new_company_request :: request where
  "new_company_request =
     \<lparr>req_params_id = ''s1'',
      req_body = [(''name'', JStr ''Yard''), (''address'', JStr ''2 Side St'')],
      req_pagination = no_pagination, req_search = []\<rparr>"

definition sheet :: "string \<Rightarrow> string \<Rightarrow> document" where
  "sheet oid file =
     [(''_id'', JStr oid), (''activity'', JStr ''a1''), (''worker'', JStr ''w1''),
      (''manager'', JStr ''m1''), (''startTime'', JStr ''2024-01-01T08:00:00Z''),
      (''endTime'', JStr ''2024-01-01T16:00:00Z''), (''hoursSpent'', JNum 8),
      (''date'', JStr ''2024-01-01''), (''file'', JStr file), (''isPending'', JBool True),
      (''isRejected'', JBool False), (''isAccepted'', JBool False),
      (''isResubmitted'', JBool False), (''rejectionReason'', JArr [])]"

definition sheet_world :: world where
  "sheet_world = \<lparr>docs = [sheet ''t1'' ''jan.pdf''], errlog = [], fault = None\<rparr>"


definition three_sheets_world :: world where
  "three_sheets_world =
     \<lparr>docs = [sheet ''t1'' ''jan.pdf'', sheet ''t2'' ''feb.pdf'', sheet ''t3'' ''mar.pdf''],
      errlog = [], fault = None\<rparr>"

definition new_sheet_request :: request where
  "new_sheet_request =
     \<lparr>req_params_id = ''t1'',
      req_body = [(''activity'', JStr ''a2''), (''worker'', JStr ''w2''), (''manager'', JStr ''m2''),
                  (''startTime'', JStr ''2024-02-01T08:00:00Z''),
                  (''endTime'', JStr ''2024-02-01T16:00:00Z''), (''hoursSpent'', JNum 8),
                  (''date'', JStr ''2024-02-01''), (''file'', JStr ''feb.pdf'')],
      req_pagination = no_pagination, req_search = []\<rparr>"

definition blank_email_request :: request where
  "blank_email_request =
     \<lparr>req_params_id = [],
      req_body = [(''email'', JStr []), (''name'', JStr ''A''), (''password'', JStr ''x'')],
      req_pagination = no_pagination, req_search = []\<rparr>"

definition blank_address_request :: request where
  "blank_address_request =
     \<lparr>req_params_id = [],
      req_body = [(''name'', JStr ''Depot''), (''address'', JStr [])],
      req_pagination = no_pagination, req_search = []\<rparr>"

text \<open>Every field the Timesheet schema requires is there; the date is the empty string.\<close>

definition blank_date_request :: request where
  "blank_date_request =
     \<lparr>req_params_id = [],
      req_body = [(''activity'', JStr ''a1''), (''worker'', JStr ''w1''), (''manager'', JStr ''m1''),
                  (''startTime'', JStr ''2024-01-01T08:00:00Z''),
                  (''endTime'', JStr ''2024-01-01T16:00:00Z''), (''hoursSpent'', JNum 8),
                  (''date'', JStr []), (''file'', JStr ''jan.pdf'')],
      req_pagination = no_pagination, req_search = []\<rparr>"

definition blank_file_request :: request where
  "blank_file_request =
     \<lparr>req_params_id = [],
      req_body = [(''activity'', JStr ''a1''), (''worker'', JStr ''w1''), (''manager'', JStr ''m1''),
                  (''startTime'', JStr ''2024-01-01T08:00:00Z''),
                  (''endTime'', JStr ''2024-01-01T16:00:00Z''), (''file'', JStr [])],
      req_pagination = no_pagination, req_search = []\<rparr>"

section \<open>Facts about the storage layer\<close>

lemma wf_same_id:
  "wf_store ds \<Longrightarrow> x \<in> set ds \<Longrightarrow> y \<in> set ds \<Longrightarrow> doc_id x = doc_id y \<Longrightarrow> x = y"
  unfolding wf_store_def
  by (meson distinct_map inj_on_def)

lemma wf_distinct: "wf_store ds \<Longrightarrow> distinct ds"
  unfolding wf_store_def by (simp add: distinct_map)

lemma matches_live:
  "matches [(''_id'', Equals (JStr oid)), (''isDeleted'', Equals (JBool False))] d
     \<longleftrightarrow> doc_id d = Some (JStr oid) \<and> map_of d ''isDeleted'' = Some (JBool False)"
  by (simp add: matches_def doc_id_def)

lemma matches_id:
  "matches [(''_id'', Equals (JStr oid))] d \<longleftrightarrow> doc_id d = Some (JStr oid)"
  by (simp add: matches_def doc_id_def)

lemma find_unique:
  assumes "distinct xs" "d \<in> set xs" "P d" "\<And>x. x \<in> set xs \<Longrightarrow> P x \<Longrightarrow> x = d"
  shows "List.find P xs = Some d"
proof -
  from assms(2,3) obtain x where x: "List.find P xs = Some x"
    by (cases "List.find P xs") (auto simp: find_None_iff)
  then have "P x" "x \<in> set xs"
    by (auto simp: find_Some_iff)
  with assms(4) x show ?thesis by auto
qed

lemma replace_first_unique:
  "(\<And>x. x \<in> set xs \<Longrightarrow> P x \<Longrightarrow> x = d) \<Longrightarrow> distinct xs \<Longrightarrow> P d \<Longrightarrow>
   replace_first P y xs = map (\<lambda>x. if x = d then y else x) xs"
proof (induction xs)
  case Nil
  then show ?case by simp
next
  case (Cons a xs)
  show ?case
  proof (cases "P a")
    case True
    then have ad: "a = d" using Cons.prems(1) by simp
    then have "d \<notin> set xs" using Cons.prems(2) by simp
    then have "map (\<lambda>x. if x = d then y else x) xs = xs"
      by (induction xs) auto
    with True ad show ?thesis by simp
  next
    case False
    then have "a \<noteq> d" using Cons.prems(3) by auto
    moreover have "replace_first P y xs = map (\<lambda>x. if x = d then y else x) xs"
      using Cons by auto
    ultimately show ?thesis using False by simp
  qed
qed

lemma remove_first_unique:
  "(\<And>x. x \<in> set xs \<Longrightarrow> P x \<Longrightarrow> x = d) \<Longrightarrow> distinct xs \<Longrightarrow> P d \<Longrightarrow>
   remove_first P xs = filter (\<lambda>x. x \<noteq> d) xs"
proof (induction xs)
  case Nil
  then show ?case by simp
next
  case (Cons a xs)
  show ?case
  proof (cases "P a")
    case True
    then have ad: "a = d" using Cons.prems(1) by simp
    then have "d \<notin> set xs" using Cons.prems(2) by simp
    then have "filter (\<lambda>x. x \<noteq> d) xs = xs"
      by (induction xs) auto
    with True ad show ?thesis by simp
  next
    case False
    then have "a \<noteq> d" using Cons.prems(3) by auto
    moreover have "remove_first P xs = filter (\<lambda>x. x \<noteq> d) xs"
      using Cons by auto
    ultimately show ?thesis using False by simp
  qed
qed

lemma findOne_live:
  assumes "wf_store ds" "d \<in> set ds" "doc_id d = Some (JStr oid)"
    "map_of d ''isDeleted'' = Some (JBool False)"
  shows "findOne [(''_id'', Equals (JStr oid)), (''isDeleted'', Equals (JBool False))] ds = Some d"
  unfolding findOne_def
proof (rule find_unique)
  show "distinct ds" using assms(1) by (rule wf_distinct)
  show "d \<in> set ds" by fact
  show "matches [(''_id'', Equals (JStr oid)), (''isDeleted'', Equals (JBool False))] d"
    using assms(3,4) by (simp add: matches_live)
  fix x assume "x \<in> set ds"
    "matches [(''_id'', Equals (JStr oid)), (''isDeleted'', Equals (JBool False))] x"
  then show "x = d"
    using assms(1,2,3) wf_same_id[of ds x d] by (simp add: matches_live)
qed

lemma doc_id_set_flag [simp]: "doc_id (AList.update ''isDeleted'' v d) = doc_id d"
  by (simp add: doc_id_def update_conv')

lemma apply_update_single: "apply_update [(k, v)] d = AList.update k v d"
  by (simp add: apply_update_def)

lemma findOne_after_flag:
  assumes "wf_store ds" "d \<in> set ds" "doc_id d = Some (JStr oid)"
  shows "findOne [(''_id'', Equals (JStr oid)), (''isDeleted'', Equals (JBool False))]
           (map (\<lambda>x. if x = d then AList.update ''isDeleted'' (JBool True) d else x) ds) = None"
proof -
  have "\<not> matches [(''_id'', Equals (JStr oid)), (''isDeleted'', Equals (JBool False))] y"
    if "y \<in> set (map (\<lambda>x. if x = d then AList.update ''isDeleted'' (JBool True) d else x) ds)" for y
  proof -
    from that obtain x where x: "x \<in> set ds"
      and y: "y = (if x = d then AList.update ''isDeleted'' (JBool True) d else x)"
      by auto
    show ?thesis
    proof (cases "x = d")
      case True
      then show ?thesis using y by (simp add: matches_live update_conv')
    next
      case False
      then have "doc_id x \<noteq> doc_id d" using wf_same_id[OF assms(1) x assms(2)] by auto
      then show ?thesis using y False assms(3) by (simp add: matches_live)
    qed
  qed
  then show ?thesis
    unfolding findOne_def by (simp add: find_None_iff del: set_map)
qed

lemma unique_fields_Customer: "unique_fields CustomerSchema = [''email'']"
  by (simp add: unique_fields_def CustomerSchema_def fld_def)

lemma unique_fields_ActivityManager: "unique_fields ActivityManagerSchema = []"
  by (simp add: unique_fields_def ActivityManagerSchema_def fld_def)

lemma soft_delete_step:
  assumes "wf_store ds" "d \<in> set ds" "doc_id d = Some (JStr oid)"
    "map_of d ''isDeleted'' = Some (JBool False)"
    "''isDeleted'' \<notin> set (unique_fields sch)"
  shows "findOneAndUpdate sch [(''_id'', Equals (JStr oid)), (''isDeleted'', Equals (JBool False))]
           [(''isDeleted'', JBool True)] ds
         = Inr (Some (AList.update ''isDeleted'' (JBool True) d),
                 map (\<lambda>x. if x = d then AList.update ''isDeleted'' (JBool True) d else x) ds)"
proof -
  let ?q = "[(''_id'', Equals (JStr oid)), (''isDeleted'', Equals (JBool False))]"
  have f: "findOne ?q ds = Some d"
    using assms(1-4) by (rule findOne_live)
  have only: "x = d" if "x \<in> set ds" "matches ?q x" for x
    using that assms(1,2,3) wf_same_id[of ds x d] by (simp add: matches_live)
  have md: "matches ?q d" using assms(3,4) by (simp add: matches_live)
  have r: "replace_first (matches ?q) y ds = map (\<lambda>x. if x = d then y else x) ds" for y
    using only wf_distinct[OF assms(1)] md by (rule replace_first_unique)
  have k: "filter (\<lambda>k. map_of [(''isDeleted'', JBool True)] k \<noteq> None) (unique_fields sch) = []"
    using assms(5) by (auto simp: filter_empty_conv)
  show ?thesis
    unfolding findOneAndUpdate_def f k
    by (simp add: apply_update_single r unique_clash_def Let_def)
qed

text \<open>Unfolding rules for evaluating the model on concrete data.\<close>

lemmas storage_defs =
  findOne_def findById_def find_docs_def countDocuments_def matches_def doc_id_def
  findOneAndUpdate_def findByIdAndUpdate_def findByIdAndDelete_def apply_update_def
  unique_clash_def unique_fields_def create_def with_id_def with_defaults_def
  missing_required_def absent_def fld_def catch_log_def logError_def
  listing_supported_def query_supported_def subject_supported_def ascii_def
  skip_limit_def ceil_div_def Let_def

lemmas sample_defs =
  acme_def acme_world_def depot_def depot_world_def sheet_def sheet_world_def
  no_pagination_def new_customer_request_def new_company_request_def new_sheet_request_def


section \<open>Soft delete, then get\<close>

text \<open>
  C1. For the soft-delete entities Customer and ActivityManager: when the identifier
  resolves to a live record \<open>d\<close> (stored, \<^verbatim>\<open>isDeleted: false\<close>) of a collection with
  unique identifiers and the storage layer works, the repository's delete returns the
  record with its flag set; a following get-by-id with the same identifier fails with the
  repository's not-found error; and the store still holds the record, of the same
  identifier, with \<^verbatim>\<open>isDeleted\<close> true: nothing else in the store has changed.
\<close>

theorem soft_delete_then_get_not_found:
  assumes "wf_store (docs w)" and "fault w = None"
    and "d \<in> set (docs w)" and "doc_id d = Some (JStr oid)"
    and "map_of d ''isDeleted'' = Some (JBool False)"
  defines "d' \<equiv> AList.update ''isDeleted'' (JBool True) d"
  defines "marked \<equiv> map (\<lambda>x. if x = d then d' else x) (docs w)"
  shows "CustomerRepository_deleteCustomer oid w = (Inr d', w\<lparr>docs := marked\<rparr>)
       \<and> fst (CustomerRepository_getCustomerById oid (w\<lparr>docs := marked\<rparr>))
           = Inl (Error ''Customer not found'')
       \<and> ActivityManagerRepository_deleteManager oid w = (Inr d', w\<lparr>docs := marked\<rparr>)
       \<and> fst (ActivityManagerRepository_getManagerById oid (w\<lparr>docs := marked\<rparr>))
           = Inl (Error ''Manager not found'')
       \<and> d' \<in> set marked \<and> length marked = length (docs w)
       \<and> doc_id d' = doc_id d \<and> map_of d' ''isDeleted'' = Some (JBool True)"
proof -
  have c: "findOneAndUpdate CustomerSchema
             [(''_id'', Equals (JStr oid)), (''isDeleted'', Equals (JBool False))]
             [(''isDeleted'', JBool True)] (docs w) = Inr (Some d', marked)"
    unfolding d'_def marked_def using assms(1,3,4,5)
    by (rule soft_delete_step) (simp add: unique_fields_Customer)
  have m: "findOneAndUpdate ActivityManagerSchema
             [(''_id'', Equals (JStr oid)), (''isDeleted'', Equals (JBool False))]
             [(''isDeleted'', JBool True)] (docs w) = Inr (Some d', marked)"
    unfolding d'_def marked_def using assms(1,3,4,5)
    by (rule soft_delete_step) (simp add: unique_fields_ActivityManager)
  have g: "findOne [(''_id'', Equals (JStr oid)), (''isDeleted'', Equals (JBool False))] marked = None"
    unfolding d'_def marked_def using assms(1,3,4) by (rule findOne_after_flag)
  have 1: "CustomerRepository_deleteCustomer oid w = (Inr d', w\<lparr>docs := marked\<rparr>)"
    by (simp add: CustomerRepository_deleteCustomer_def assms(2) c catch_log_def)
  have 2: "fst (CustomerRepository_getCustomerById oid (w\<lparr>docs := marked\<rparr>))
           = Inl (Error ''Customer not found'')"
    by (simp add: CustomerRepository_getCustomerById_def assms(2) g catch_log_def)
  have 3: "ActivityManagerRepository_deleteManager oid w = (Inr d', w\<lparr>docs := marked\<rparr>)"
    by (simp add: ActivityManagerRepository_deleteManager_def assms(2) m catch_log_def)
  have 4: "fst (ActivityManagerRepository_getManagerById oid (w\<lparr>docs := marked\<rparr>))
           = Inl (Error ''Manager not found'')"
    by (simp add: ActivityManagerRepository_getManagerById_def assms(2) g catch_log_def)
  have 5: "d' \<in> set marked" using assms(3) by (auto simp: marked_def)
  have 6: "length marked = length (docs w)" by (simp add: marked_def)
  have 7: "doc_id d' = doc_id d" by (simp add: d'_def)
  have 8: "map_of d' ''isDeleted'' = Some (JBool True)" by (simp add: d'_def update_conv')
  from 1 2 3 4 5 6 7 8 show ?thesis by blast
qed

theorem soft_delete_then_get_not_found_witness:
  "CustomerRepository_deleteCustomer ''c1'' acme_world
     = (Inr (AList.update ''isDeleted'' (JBool True) acme),
        acme_world\<lparr>docs := [AList.update ''isDeleted'' (JBool True) acme]\<rparr>)
   \<and> fst (CustomerRepository_getCustomerById ''c1''
            (acme_world\<lparr>docs := [AList.update ''isDeleted'' (JBool True) acme]\<rparr>))
       = Inl (Error ''Customer not found'')
   \<and> ActivityManagerRepository_deleteManager ''c1'' acme_world
       = (Inr (AList.update ''isDeleted'' (JBool True) acme),
          acme_world\<lparr>docs := [AList.update ''isDeleted'' (JBool True) acme]\<rparr>)
   \<and> fst (ActivityManagerRepository_getManagerById ''c1''
            (acme_world\<lparr>docs := [AList.update ''isDeleted'' (JBool True) acme]\<rparr>))
       = Inl (Error ''Manager not found'')
   \<and> map_of (AList.update ''isDeleted'' (JBool True) acme) ''isDeleted'' = Some (JBool True)"
  using soft_delete_then_get_not_found [of acme_world acme "''c1''"]
  by (simp add: acme_world_def acme_def wf_store_def doc_id_def)

section \<open>What the validation middlewares reject\<close>

text \<open>
  C10 (as amended). The create middlewares test the presence of a field by truthiness:
  when a field the middleware tests holds the empty string, whatever the other fields
  hold, the middleware answers with the same 400 response as for the body without that
  field, and the POST route returns that response with the store and the log as they
  were. The tested fields are email, name and password for Customer, name and address for
  ServiceCompany, and activity, worker, manager, startTime, endTime and file for
  Timesheet.
\<close>

theorem blank_required_field_rejected:
  "(kc \<in> set [''email'', ''name'', ''password'']
        \<and> map_of (req_body rc) kc = Some (JStr [])
      \<longrightarrow> CustomerMiddleware_createCustomer rc
            = Some (SendError (Message ''ValidationError: Email, Name, and Password must be provided'')
                      ''Email, Name, and Password must be provided'' (Some 400))
        \<and> CustomerMiddleware_createCustomer (rc\<lparr>req_body := AList.delete kc (req_body rc)\<rparr>)
            = CustomerMiddleware_createCustomer rc
        \<and> customerRoute POST fresh rc wc
            = Some (SendError (Message ''ValidationError: Email, Name, and Password must be provided'')
                      ''Email, Name, and Password must be provided'' (Some 400), wc))
 \<and> (ks \<in> set [''name'', ''address'']
        \<and> map_of (req_body rs) ks = Some (JStr [])
      \<longrightarrow> ServiceCompanyMiddleware_createServiceCompany rs
            = Some (SendError (Message ''ValidationError: Name and Address must be provided'')
                      ''Name and Address must be provided'' (Some 400))
        \<and> ServiceCompanyMiddleware_createServiceCompany (rs\<lparr>req_body := AList.delete ks (req_body rs)\<rparr>)
            = ServiceCompanyMiddleware_createServiceCompany rs
        \<and> serviceCompanyRoute POST fresh rs ws
            = Some (SendError (Message ''ValidationError: Name and Address must be provided'')
                      ''Name and Address must be provided'' (Some 400), ws))
 \<and> (kt \<in> set [''activity'', ''worker'', ''manager'', ''startTime'', ''endTime'', ''file'']
        \<and> map_of (req_body rt) kt = Some (JStr [])
      \<longrightarrow> TimesheetMiddleware_createTimesheet rt
            = Some (SendError (Message ''ValidationError: Activity, Worker, Manager, StartTime, EndTime, and File must be provided'')
                      ''Activity, Worker, Manager, StartTime, EndTime, and File must be provided'' (Some 400))
        \<and> TimesheetMiddleware_createTimesheet (rt\<lparr>req_body := AList.delete kt (req_body rt)\<rparr>)
            = TimesheetMiddleware_createTimesheet rt
        \<and> timesheetroute POST fresh rt wt
            = Some (SendError (Message ''ValidationError: Activity, Worker, Manager, StartTime, EndTime, and File must be provided'')
                      ''Activity, Worker, Manager, StartTime, EndTime, and File must be provided'' (Some 400), wt))"
proof (intro conjI)
  show "kc \<in> set [''email'', ''name'', ''password'']
        \<and> map_of (req_body rc) kc = Some (JStr [])
      \<longrightarrow> CustomerMiddleware_createCustomer rc
            = Some (SendError (Message ''ValidationError: Email, Name, and Password must be provided'')
                      ''Email, Name, and Password must be provided'' (Some 400))
        \<and> CustomerMiddleware_createCustomer (rc\<lparr>req_body := AList.delete kc (req_body rc)\<rparr>)
            = CustomerMiddleware_createCustomer rc
        \<and> customerRoute POST fresh rc wc
            = Some (SendError (Message ''ValidationError: Email, Name, and Password must be provided'')
                      ''Email, Name, and Password must be provided'' (Some 400), wc)"
  proof (intro impI)
    assume h: "kc \<in> set [''email'', ''name'', ''password'']
        \<and> map_of (req_body rc) kc = Some (JStr [])"
    then have m: "CustomerMiddleware_createCustomer rc
            = Some (SendError (Message ''ValidationError: Email, Name, and Password must be provided'')
                      ''Email, Name, and Password must be provided'' (Some 400))"
      by (auto simp: CustomerMiddleware_createCustomer_def)
    from h have a: "CustomerMiddleware_createCustomer (rc\<lparr>req_body := AList.delete kc (req_body rc)\<rparr>)
            = CustomerMiddleware_createCustomer rc"
      by (auto simp: CustomerMiddleware_createCustomer_def delete_conv')
    from m have "customerRoute POST fresh rc wc
            = Some (SendError (Message ''ValidationError: Email, Name, and Password must be provided'')
                      ''Email, Name, and Password must be provided'' (Some 400), wc)"
      by (simp add: chain_def)
    with m a show "CustomerMiddleware_createCustomer rc
            = Some (SendError (Message ''ValidationError: Email, Name, and Password must be provided'')
                      ''Email, Name, and Password must be provided'' (Some 400))
        \<and> CustomerMiddleware_createCustomer (rc\<lparr>req_body := AList.delete kc (req_body rc)\<rparr>)
            = CustomerMiddleware_createCustomer rc
        \<and> customerRoute POST fresh rc wc
            = Some (SendError (Message ''ValidationError: Email, Name, and Password must be provided'')
                      ''Email, Name, and Password must be provided'' (Some 400), wc)"
      by blast
  qed
next
  show "ks \<in> set [''name'', ''address'']
        \<and> map_of (req_body rs) ks = Some (JStr [])
      \<longrightarrow> ServiceCompanyMiddleware_createServiceCompany rs
            = Some (SendError (Message ''ValidationError: Name and Address must be provided'')
                      ''Name and Address must be provided'' (Some 400))
        \<and> ServiceCompanyMiddleware_createServiceCompany (rs\<lparr>req_body := AList.delete ks (req_body rs)\<rparr>)
            = ServiceCompanyMiddleware_createServiceCompany rs
        \<and> serviceCompanyRoute POST fresh rs ws
            = Some (SendError (Message ''ValidationError: Name and Address must be provided'')
                      ''Name and Address must be provided'' (Some 400), ws)"
  proof (intro impI)
    assume h: "ks \<in> set [''name'', ''address'']
        \<and> map_of (req_body rs) ks = Some (JStr [])"
    then have m: "ServiceCompanyMiddleware_createServiceCompany rs
            = Some (SendError (Message ''ValidationError: Name and Address must be provided'')
                      ''Name and Address must be provided'' (Some 400))"
      by (auto simp: ServiceCompanyMiddleware_createServiceCompany_def)
    from h have a: "ServiceCompanyMiddleware_createServiceCompany (rs\<lparr>req_body := AList.delete ks (req_body rs)\<rparr>)
            = ServiceCompanyMiddleware_createServiceCompany rs"
      by (auto simp: ServiceCompanyMiddleware_createServiceCompany_def delete_conv')
    from m have "serviceCompanyRoute POST fresh rs ws
            = Some (SendError (Message ''ValidationError: Name and Address must be provided'')
                      ''Name and Address must be provided'' (Some 400), ws)"
      by (simp add: chain_def)
    with m a show "ServiceCompanyMiddleware_createServiceCompany rs
            = Some (SendError (Message ''ValidationError: Name and Address must be provided'')
                      ''Name and Address must be provided'' (Some 400))
        \<and> ServiceCompanyMiddleware_createServiceCompany (rs\<lparr>req_body := AList.delete ks (req_body rs)\<rparr>)
            = ServiceCompanyMiddleware_createServiceCompany rs
        \<and> serviceCompanyRoute POST fresh rs ws
            = Some (SendError (Message ''ValidationError: Name and Address must be provided'')
                      ''Name and Address must be provided'' (Some 400), ws)"
      by blast
  qed
next
  show "kt \<in> set [''activity'', ''worker'', ''manager'', ''startTime'', ''endTime'', ''file'']
        \<and> map_of (req_body rt) kt = Some (JStr [])
      \<longrightarrow> TimesheetMiddleware_createTimesheet rt
            = Some (SendError (Message ''ValidationError: Activity, Worker, Manager, StartTime, EndTime, and File must be provided'')
                      ''Activity, Worker, Manager, StartTime, EndTime, and File must be provided'' (Some 400))
        \<and> TimesheetMiddleware_createTimesheet (rt\<lparr>req_body := AList.delete kt (req_body rt)\<rparr>)
            = TimesheetMiddleware_createTimesheet rt
        \<and> timesheetroute POST fresh rt wt
            = Some (SendError (Message ''ValidationError: Activity, Worker, Manager, StartTime, EndTime, and File must be provided'')
                      ''Activity, Worker, Manager, StartTime, EndTime, and File must be provided'' (Some 400), wt)"
  proof (intro impI)
    assume h: "kt \<in> set [''activity'', ''worker'', ''manager'', ''startTime'', ''endTime'', ''file'']
        \<and> map_of (req_body rt) kt = Some (JStr [])"
    then have m: "TimesheetMiddleware_createTimesheet rt
            = Some (SendError (Message ''ValidationError: Activity, Worker, Manager, StartTime, EndTime, and File must be provided'')
                      ''Activity, Worker, Manager, StartTime, EndTime, and File must be provided'' (Some 400))"
      by (auto simp: TimesheetMiddleware_createTimesheet_def)
    from h have a: "TimesheetMiddleware_createTimesheet (rt\<lparr>req_body := AList.delete kt (req_body rt)\<rparr>)
            = TimesheetMiddleware_createTimesheet rt"
      by (auto simp: TimesheetMiddleware_createTimesheet_def delete_conv')
    from m have "timesheetroute POST fresh rt wt
            = Some (SendError (Message ''ValidationError: Activity, Worker, Manager, StartTime, EndTime, and File must be provided'')
                      ''Activity, Worker, Manager, StartTime, EndTime, and File must be provided'' (Some 400), wt)"
      by (simp add: chain_def)
    with m a show "TimesheetMiddleware_createTimesheet rt
            = Some (SendError (Message ''ValidationError: Activity, Worker, Manager, StartTime, EndTime, and File must be provided'')
                      ''Activity, Worker, Manager, StartTime, EndTime, and File must be provided'' (Some 400))
        \<and> TimesheetMiddleware_createTimesheet (rt\<lparr>req_body := AList.delete kt (req_body rt)\<rparr>)
            = TimesheetMiddleware_createTimesheet rt
        \<and> timesheetroute POST fresh rt wt
            = Some (SendError (Message ''ValidationError: Activity, Worker, Manager, StartTime, EndTime, and File must be provided'')
                      ''Activity, Worker, Manager, StartTime, EndTime, and File must be provided'' (Some 400), wt)"
      by blast
  qed
qed

theorem blank_required_field_rejected_witness:
  "CustomerMiddleware_createCustomer blank_email_request
     = Some (SendError (Message ''ValidationError: Email, Name, and Password must be provided'')
               ''Email, Name, and Password must be provided'' (Some 400))
   \<and> CustomerMiddleware_createCustomer
        (blank_email_request\<lparr>req_body := [(''name'', JStr ''A''), (''password'', JStr ''x'')]\<rparr>)
     = CustomerMiddleware_createCustomer blank_email_request
   \<and> customerRoute POST ''c2'' blank_email_request acme_world
     = Some (SendError (Message ''ValidationError: Email, Name, and Password must be provided'')
               ''Email, Name, and Password must be provided'' (Some 400), acme_world)
   \<and> ServiceCompanyMiddleware_createServiceCompany blank_address_request
     = Some (SendError (Message ''ValidationError: Name and Address must be provided'')
               ''Name and Address must be provided'' (Some 400))
   \<and> serviceCompanyRoute POST ''c2'' blank_address_request depot_world
     = Some (SendError (Message ''ValidationError: Name and Address must be provided'')
               ''Name and Address must be provided'' (Some 400), depot_world)
   \<and> TimesheetMiddleware_createTimesheet blank_file_request
     = Some (SendError (Message ''ValidationError: Activity, Worker, Manager, StartTime, EndTime, and File must be provided'')
               ''Activity, Worker, Manager, StartTime, EndTime, and File must be provided'' (Some 400))
   \<and> timesheetroute POST ''c2'' blank_file_request sheet_world
     = Some (SendError (Message ''ValidationError: Activity, Worker, Manager, StartTime, EndTime, and File must be provided'')
               ''Activity, Worker, Manager, StartTime, EndTime, and File must be provided'' (Some 400), sheet_world)"
proof -
  have c: "''email'' \<in> set [''email'', ''name'', ''password'']
           \<and> map_of (req_body blank_email_request) ''email'' = Some (JStr [])"
    by (simp add: blank_email_request_def)
  have d: "AList.delete ''email'' (req_body blank_email_request)
           = [(''name'', JStr ''A''), (''password'', JStr ''x'')]"
    by (simp add: blank_email_request_def AList.delete_eq)
  have s: "''address'' \<in> set [''name'', ''address'']
           \<and> map_of (req_body blank_address_request) ''address'' = Some (JStr [])"
    by (simp add: blank_address_request_def)
  have t: "''file'' \<in> set [''activity'', ''worker'', ''manager'', ''startTime'', ''endTime'', ''file'']
           \<and> map_of (req_body blank_file_request) ''file'' = Some (JStr [])"
    by (simp add: blank_file_request_def)
  show ?thesis
    using blank_required_field_rejected [where kc = "''email''" and rc = blank_email_request
        and fresh = "''c2''" and wc = acme_world and ks = "''address''"
        and rs = blank_address_request and ws = depot_world and kt = "''file''"
        and rt = blank_file_request and wt = sheet_world] c d s t
    by metis
qed

text \<open>
  The claim as stated, for every required field, fails: the Timesheet schema also
  requires \<^verbatim>\<open>hoursSpent\<close> and \<^verbatim>\<open>date\<close>, which the middleware does not test. With every
  required field in the body and the date the empty string, the middleware calls
  \<^verbatim>\<open>next()\<close>; the create then fails in the storage layer, and the response is the
  service's error response, to which the code passes no status.
\<close>

theorem untested_required_field_counterexample:
  "map fname (filter required TimesheetSchema)
     = [''activity'', ''worker'', ''manager'', ''startTime'', ''endTime'', ''hoursSpent'', ''date'',
        ''file'']
   \<and> map (map_of (req_body blank_date_request)) (map fname (filter required TimesheetSchema))
     = [Some (JStr ''a1''), Some (JStr ''w1''), Some (JStr ''m1''),
        Some (JStr ''2024-01-01T08:00:00Z''), Some (JStr ''2024-01-01T16:00:00Z''),
        Some (JNum 8), Some (JStr []), Some (JStr ''jan.pdf'')]
   \<and> TimesheetMiddleware_createTimesheet blank_date_request = None
   \<and> timesheetroute POST ''t9'' blank_date_request sheet_world
     = Some (SendError (Thrown (StorageError ''ValidationError'')) ''Timesheet creation failed'' None,
             sheet_world\<lparr>errlog :=
               [(''TimesheetRepository-createTimesheet'', StorageError ''ValidationError''),
                (''TimesheetService-createTimesheet'', StorageError ''ValidationError'')]\<rparr>)"
  by (simp add: TimesheetMiddleware_createTimesheet_def TimesheetService_createTimesheet_def
      TimesheetRepository_createTimesheet_def TimesheetSchema_def chain_def storage_defs
      blank_date_request_def sheet_world_def sheet_def no_pagination_def)

text \<open>
  C5. On the PATCH routes of Customer, ServiceCompany and Timesheet, a request whose body
  provides none of the entity's updatable fields is answered by the validation middleware
  with status 400; the service and the repository do not run: the store and the error log
  are as before.
\<close>

theorem update_without_fields_rejected:
  "(provides_none IUpdateCustomer rc
      \<longrightarrow> customerRoute PATCH fresh rc wc
            = Some (SendError (Message ''ValidationError: At least one field (Email, Name, or Password) must be provided'')
                      ''At least one field (Email, Name, or Password) must be provided'' (Some 400), wc))
 \<and> (provides_none IUpdateServiceCompany rs
      \<longrightarrow> serviceCompanyRoute PATCH fresh rs ws
            = Some (SendError (Message ''ValidationError: At least one field (Name or Address) must be provided'')
                      ''At least one field (Name or Address) must be provided'' (Some 400), ws))
 \<and> (provides_none IUpdateTimesheet rt
      \<longrightarrow> timesheetroute PATCH fresh rt wt
            = Some (SendError (Message ''ValidationError: At least one of Activity, Worker, Manager, StartTime, EndTime, or File must be provided'')
                      ''At least one of Activity, Worker, Manager, StartTime, EndTime, or File must be provided'' (Some 400), wt))"
proof (intro conjI impI)
  assume "provides_none IUpdateCustomer rc"
  then have "CustomerMiddleware_updateCustomer rc
     = Some (SendError (Message ''ValidationError: At least one field (Email, Name, or Password) must be provided'')
                      ''At least one field (Email, Name, or Password) must be provided'' (Some 400))"
    by (simp add: CustomerMiddleware_updateCustomer_def provides_none_def IUpdateCustomer_def)
  then show "customerRoute PATCH fresh rc wc
            = Some (SendError (Message ''ValidationError: At least one field (Email, Name, or Password) must be provided'')
                      ''At least one field (Email, Name, or Password) must be provided'' (Some 400), wc)"
    by (simp add: chain_def)
next
  assume "provides_none IUpdateServiceCompany rs"
  then have "ServiceCompanyMiddleware_updateServiceCompany rs
     = Some (SendError (Message ''ValidationError: At least one field (Name or Address) must be provided'')
                      ''At least one field (Name or Address) must be provided'' (Some 400))"
    by (simp add: ServiceCompanyMiddleware_updateServiceCompany_def provides_none_def IUpdateServiceCompany_def)
  then show "serviceCompanyRoute PATCH fresh rs ws
            = Some (SendError (Message ''ValidationError: At least one field (Name or Address) must be provided'')
                      ''At least one field (Name or Address) must be provided'' (Some 400), ws)"
    by (simp add: chain_def)
next
  assume "provides_none IUpdateTimesheet rt"
  then have "TimesheetMiddleware_updateTimesheet rt
     = Some (SendError (Message ''ValidationError: At least one of Activity, Worker, Manager, StartTime, EndTime, or File must be provided'')
                      ''At least one of Activity, Worker, Manager, StartTime, EndTime, or File must be provided'' (Some 400))"
    by (simp add: TimesheetMiddleware_updateTimesheet_def provides_none_def IUpdateTimesheet_def)
  then show "timesheetroute PATCH fresh rt wt
            = Some (SendError (Message ''ValidationError: At least one of Activity, Worker, Manager, StartTime, EndTime, or File must be provided'')
                      ''At least one of Activity, Worker, Manager, StartTime, EndTime, or File must be provided'' (Some 400), wt)"
    by (simp add: chain_def)
qed

theorem update_without_fields_rejected_witness:
  "customerRoute PATCH ''c9'' empty_customer_request acme_world
     = Some (SendError (Message ''ValidationError: At least one field (Email, Name, or Password) must be provided'')
               ''At least one field (Email, Name, or Password) must be provided'' (Some 400), acme_world)
   \<and> serviceCompanyRoute PATCH ''c9'' empty_customer_request depot_world
     = Some (SendError (Message ''ValidationError: At least one field (Name or Address) must be provided'')
               ''At least one field (Name or Address) must be provided'' (Some 400), depot_world)
   \<and> timesheetroute PATCH ''c9'' empty_customer_request sheet_world
     = Some (SendError (Message ''ValidationError: At least one of Activity, Worker, Manager, StartTime, EndTime, or File must be provided'')
               ''At least one of Activity, Worker, Manager, StartTime, EndTime, or File must be provided'' (Some 400), sheet_world)"
proof -
  have "provides_none IUpdateCustomer empty_customer_request"
    by (simp add: provides_none_def IUpdateCustomer_def empty_customer_request_def)
  moreover have "provides_none IUpdateServiceCompany empty_customer_request"
    by (simp add: provides_none_def IUpdateServiceCompany_def empty_customer_request_def)
  moreover have "provides_none IUpdateTimesheet empty_customer_request"
    by (simp add: provides_none_def IUpdateTimesheet_def empty_customer_request_def)
  ultimately show ?thesis
    using update_without_fields_rejected [of empty_customer_request "''c9''" acme_world
        empty_customer_request depot_world empty_customer_request sheet_world]
    by blast
qed


section \<open>Status of the successful responses\<close>

text \<open>
  C8. In the services of Customer, ServiceCompany and Timesheet: when the repository's
  create returns a record, the service responds with status 201; when the repository's
  list, get, update or delete returns its result, the service responds with the default
  status, 200.
\<close>

theorem success_status:
  "(\<not> isl (fst (CustomerRepository_createCustomer fresh (req_body rc) wc))
      \<longrightarrow> http_status (fst (CustomerService_createCustomer fresh rc wc)) = Some 201)
 \<and> (\<not> isl (fst (CustomerRepository_getCustomerById (req_params_id rc) wc))
      \<longrightarrow> http_status (fst (CustomerService_getCustomer rc wc)) = Some 200)
 \<and> (\<not> isl (fst (CustomerRepository_updateCustomer (req_params_id rc) (req_body rc) wc))
      \<longrightarrow> http_status (fst (CustomerService_updateCustomer rc wc)) = Some 200)
 \<and> (\<not> isl (fst (CustomerRepository_deleteCustomer (req_params_id rc) wc))
      \<longrightarrow> http_status (fst (CustomerService_deleteCustomer rc wc)) = Some 200)
 \<and> (CustomerRepository_getCustomers (req_pagination rc) (req_search rc) wc = Some (Inr lc, wc')
      \<longrightarrow> map_option (\<lambda>r. http_status (fst r)) (CustomerService_getCustomers rc wc) = Some (Some 200))
 \<and> (\<not> isl (fst (ServiceCompanyRepository_createServiceCompany fresh (req_body rs) ws))
      \<longrightarrow> http_status (fst (ServiceCompanyService_createServiceCompany fresh rs ws)) = Some 201)
 \<and> (\<not> isl (fst (ServiceCompanyRepository_getServiceCompanyById (req_params_id rs) ws))
      \<longrightarrow> http_status (fst (ServiceCompanyService_getServiceCompany rs ws)) = Some 200)
 \<and> (\<not> isl (fst (ServiceCompanyRepository_updateServiceCompany (req_params_id rs) (req_body rs) ws))
      \<longrightarrow> http_status (fst (ServiceCompanyService_updateServiceCompany rs ws)) = Some 200)
 \<and> (\<not> isl (fst (ServiceCompanyRepository_deleteServiceCompany (req_params_id rs) ws))
      \<longrightarrow> http_status (fst (ServiceCompanyService_deleteServiceCompany rs ws)) = Some 200)
 \<and> (ServiceCompanyRepository_getServiceCompanies (req_pagination rs) (req_search rs) ws = Some (Inr ls, ws')
      \<longrightarrow> map_option (\<lambda>r. http_status (fst r)) (ServiceCompanyService_getServiceCompanies rs ws) = Some (Some 200))
 \<and> (\<not> isl (fst (TimesheetRepository_createTimesheet fresh (req_body rt) wt))
      \<longrightarrow> http_status (fst (TimesheetService_createTimesheet fresh rt wt)) = Some 201)
 \<and> (\<not> isl (fst (TimesheetRepository_getTimesheetById (req_params_id rt) wt))
      \<longrightarrow> http_status (fst (TimesheetService_getTimesheet rt wt)) = Some 200)
 \<and> (\<not> isl (fst (TimesheetRepository_updateTimesheet (req_params_id rt) (req_body rt) wt))
      \<longrightarrow> http_status (fst (TimesheetService_updateTimesheet rt wt)) = Some 200)
 \<and> (\<not> isl (fst (TimesheetRepository_deleteTimesheet (req_params_id rt) wt))
      \<longrightarrow> http_status (fst (TimesheetService_deleteTimesheet rt wt)) = Some 200)
 \<and> (TimesheetRepository_getTimesheets (req_pagination rt) (req_search rt) wt = Some (Inr lt, wt')
      \<longrightarrow> map_option (\<lambda>r. http_status (fst r)) (TimesheetService_getTimesheets rt wt) = Some (Some 200))"
proof -
  have c1: "\<not> isl (fst (CustomerRepository_createCustomer fresh (req_body rc) wc))
      \<longrightarrow> http_status (fst (CustomerService_createCustomer fresh rc wc)) = Some 201"
    by (auto simp: CustomerService_createCustomer_def default_success_status_def split: prod.splits sum.splits)
  have c2: "\<not> isl (fst (CustomerRepository_getCustomerById (req_params_id rc) wc))
      \<longrightarrow> http_status (fst (CustomerService_getCustomer rc wc)) = Some 200"
    by (auto simp: CustomerService_getCustomer_def default_success_status_def split: prod.splits sum.splits)
  have c3: "\<not> isl (fst (CustomerRepository_updateCustomer (req_params_id rc) (req_body rc) wc))
      \<longrightarrow> http_status (fst (CustomerService_updateCustomer rc wc)) = Some 200"
    by (auto simp: CustomerService_updateCustomer_def default_success_status_def split: prod.splits sum.splits)
  have c4: "\<not> isl (fst (CustomerRepository_deleteCustomer (req_params_id rc) wc))
      \<longrightarrow> http_status (fst (CustomerService_deleteCustomer rc wc)) = Some 200"
    by (auto simp: CustomerService_deleteCustomer_def default_success_status_def split: prod.splits sum.splits)
  have c5: "CustomerRepository_getCustomers (req_pagination rc) (req_search rc) wc = Some (Inr lc, wc')
      \<longrightarrow> map_option (\<lambda>r. http_status (fst r)) (CustomerService_getCustomers rc wc) = Some (Some 200)"
    by (auto simp: CustomerService_getCustomers_def default_success_status_def split: prod.splits sum.splits)
  have s1: "\<not> isl (fst (ServiceCompanyRepository_createServiceCompany fresh (req_body rs) ws))
      \<longrightarrow> http_status (fst (ServiceCompanyService_createServiceCompany fresh rs ws)) = Some 201"
    by (auto simp: ServiceCompanyService_createServiceCompany_def default_success_status_def split: prod.splits sum.splits)
  have s2: "\<not> isl (fst (ServiceCompanyRepository_getServiceCompanyById (req_params_id rs) ws))
      \<longrightarrow> http_status (fst (ServiceCompanyService_getServiceCompany rs ws)) = Some 200"
    by (auto simp: ServiceCompanyService_getServiceCompany_def default_success_status_def split: prod.splits sum.splits)
  have s3: "\<not> isl (fst (ServiceCompanyRepository_updateServiceCompany (req_params_id rs) (req_body rs) ws))
      \<longrightarrow> http_status (fst (ServiceCompanyService_updateServiceCompany rs ws)) = Some 200"
    by (auto simp: ServiceCompanyService_updateServiceCompany_def default_success_status_def split: prod.splits sum.splits)
  have s4: "\<not> isl (fst (ServiceCompanyRepository_deleteServiceCompany (req_params_id rs) ws))
      \<longrightarrow> http_status (fst (ServiceCompanyService_deleteServiceCompany rs ws)) = Some 200"
    by (auto simp: ServiceCompanyService_deleteServiceCompany_def default_success_status_def split: prod.splits sum.splits)
  have s5: "ServiceCompanyRepository_getServiceCompanies (req_pagination rs) (req_search rs) ws = Some (Inr ls, ws')
      \<longrightarrow> map_option (\<lambda>r. http_status (fst r)) (ServiceCompanyService_getServiceCompanies rs ws) = Some (Some 200)"
    by (auto simp: ServiceCompanyService_getServiceCompanies_def default_success_status_def split: prod.splits sum.splits)
  have t1: "\<not> isl (fst (TimesheetRepository_createTimesheet fresh (req_body rt) wt))
      \<longrightarrow> http_status (fst (TimesheetService_createTimesheet fresh rt wt)) = Some 201"
    by (auto simp: TimesheetService_createTimesheet_def default_success_status_def split: prod.splits sum.splits)
  have t2: "\<not> isl (fst (TimesheetRepository_getTimesheetById (req_params_id rt) wt))
      \<longrightarrow> http_status (fst (TimesheetService_getTimesheet rt wt)) = Some 200"
    by (auto simp: TimesheetService_getTimesheet_def default_success_status_def split: prod.splits sum.splits)
  have t3: "\<not> isl (fst (TimesheetRepository_updateTimesheet (req_params_id rt) (req_body rt) wt))
      \<longrightarrow> http_status (fst (TimesheetService_updateTimesheet rt wt)) = Some 200"
    by (auto simp: TimesheetService_updateTimesheet_def default_success_status_def split: prod.splits sum.splits)
  have t4: "\<not> isl (fst (TimesheetRepository_deleteTimesheet (req_params_id rt) wt))
      \<longrightarrow> http_status (fst (TimesheetService_deleteTimesheet rt wt)) = Some 200"
    by (auto simp: TimesheetService_deleteTimesheet_def default_success_status_def split: prod.splits sum.splits)
  have t5: "TimesheetRepository_getTimesheets (req_pagination rt) (req_search rt) wt = Some (Inr lt, wt')
      \<longrightarrow> map_option (\<lambda>r. http_status (fst r)) (TimesheetService_getTimesheets rt wt) = Some (Some 200)"
    by (auto simp: TimesheetService_getTimesheets_def default_success_status_def split: prod.splits sum.splits)
  from c1 c2 c3 c4 c5 s1 s2 s3 s4 s5 t1 t2 t3 t4 t5 show ?thesis by blast
qed

theorem success_status_witness:
  "http_status (fst (CustomerService_createCustomer ''n1'' new_customer_request acme_world)) = Some 201
   \<and> http_status (fst (CustomerService_getCustomer new_customer_request acme_world)) = Some 200
   \<and> http_status (fst (CustomerService_updateCustomer new_customer_request acme_world)) = Some 200
   \<and> http_status (fst (CustomerService_deleteCustomer new_customer_request acme_world)) = Some 200
   \<and> map_option (\<lambda>r. http_status (fst r)) (CustomerService_getCustomers new_customer_request acme_world) = Some (Some 200)
   \<and> http_status (fst (ServiceCompanyService_createServiceCompany ''n1'' new_company_request depot_world)) = Some 201
   \<and> http_status (fst (ServiceCompanyService_getServiceCompany new_company_request depot_world)) = Some 200
   \<and> http_status (fst (ServiceCompanyService_updateServiceCompany new_company_request depot_world)) = Some 200
   \<and> http_status (fst (ServiceCompanyService_deleteServiceCompany new_company_request depot_world)) = Some 200
   \<and> map_option (\<lambda>r. http_status (fst r)) (ServiceCompanyService_getServiceCompanies new_company_request depot_world) = Some (Some 200)
   \<and> http_status (fst (TimesheetService_createTimesheet ''n1'' new_sheet_request sheet_world)) = Some 201
   \<and> http_status (fst (TimesheetService_getTimesheet new_sheet_request sheet_world)) = Some 200
   \<and> http_status (fst (TimesheetService_updateTimesheet new_sheet_request sheet_world)) = Some 200
   \<and> http_status (fst (TimesheetService_deleteTimesheet new_sheet_request sheet_world)) = Some 200
   \<and> map_option (\<lambda>r. http_status (fst r)) (TimesheetService_getTimesheets new_sheet_request sheet_world) = Some (Some 200)"
proof -
  have c1: "\<not> isl (fst (CustomerRepository_createCustomer ''n1'' (req_body new_customer_request) acme_world))"
    by (simp add: CustomerRepository_createCustomer_def CustomerSchema_def storage_defs sample_defs)
  have c2: "\<not> isl (fst (CustomerRepository_getCustomerById (req_params_id new_customer_request) acme_world))"
    by (simp add: CustomerRepository_getCustomerById_def storage_defs sample_defs)
  have c3: "\<not> isl (fst (CustomerRepository_updateCustomer (req_params_id new_customer_request) (req_body new_customer_request) acme_world))"
    by (simp add: CustomerRepository_updateCustomer_def CustomerSchema_def storage_defs sample_defs)
  have c4: "\<not> isl (fst (CustomerRepository_deleteCustomer (req_params_id new_customer_request) acme_world))"
    by (simp add: CustomerRepository_deleteCustomer_def CustomerSchema_def storage_defs sample_defs)
  have c5: "CustomerRepository_getCustomers (req_pagination new_customer_request) (req_search new_customer_request) acme_world
           = Some (Inr \<lparr>data = [acme], totalCount = 1, currentPage = 1, totalPages = 1\<rparr>, acme_world)"
    by (simp add: CustomerRepository_getCustomers_def storage_defs sample_defs)
  have s1: "\<not> isl (fst (ServiceCompanyRepository_createServiceCompany ''n1'' (req_body new_company_request) depot_world))"
    by (simp add: ServiceCompanyRepository_createServiceCompany_def ServiceCompanySchema_def storage_defs sample_defs)
  have s2: "\<not> isl (fst (ServiceCompanyRepository_getServiceCompanyById (req_params_id new_company_request) depot_world))"
    by (simp add: ServiceCompanyRepository_getServiceCompanyById_def storage_defs sample_defs)
  have s3: "\<not> isl (fst (ServiceCompanyRepository_updateServiceCompany (req_params_id new_company_request) (req_body new_company_request) depot_world))"
    by (simp add: ServiceCompanyRepository_updateServiceCompany_def ServiceCompanySchema_def storage_defs sample_defs)
  have s4: "\<not> isl (fst (ServiceCompanyRepository_deleteServiceCompany (req_params_id new_company_request) depot_world))"
    by (simp add: ServiceCompanyRepository_deleteServiceCompany_def ServiceCompanySchema_def storage_defs sample_defs)
  have s5: "ServiceCompanyRepository_getServiceCompanies (req_pagination new_company_request) (req_search new_company_request) depot_world
           = Some (Inr \<lparr>data = [depot], totalCount = 1, currentPage = 1, totalPages = 1\<rparr>, depot_world)"
    by (simp add: ServiceCompanyRepository_getServiceCompanies_def storage_defs sample_defs)
  have t1: "\<not> isl (fst (TimesheetRepository_createTimesheet ''n1'' (req_body new_sheet_request) sheet_world))"
    by (simp add: TimesheetRepository_createTimesheet_def TimesheetSchema_def storage_defs sample_defs)
  have t2: "\<not> isl (fst (TimesheetRepository_getTimesheetById (req_params_id new_sheet_request) sheet_world))"
    by (simp add: TimesheetRepository_getTimesheetById_def storage_defs sample_defs)
  have t3: "\<not> isl (fst (TimesheetRepository_updateTimesheet (req_params_id new_sheet_request) (req_body new_sheet_request) sheet_world))"
    by (simp add: TimesheetRepository_updateTimesheet_def TimesheetSchema_def storage_defs sample_defs)
  have t4: "\<not> isl (fst (TimesheetRepository_deleteTimesheet (req_params_id new_sheet_request) sheet_world))"
    by (simp add: TimesheetRepository_deleteTimesheet_def TimesheetSchema_def storage_defs sample_defs)
  have t5: "TimesheetRepository_getTimesheets (req_pagination new_sheet_request) (req_search new_sheet_request) sheet_world
           = Some (Inr \<lparr>data = [sheet ''t1'' ''jan.pdf''], totalCount = 1, currentPage = 1, totalPages = 1\<rparr>, sheet_world)"
    by (simp add: TimesheetRepository_getTimesheets_def storage_defs sample_defs)
  show ?thesis
    using success_status [of "''n1''"
        new_customer_request
        acme_world
        "\<lparr>data = [acme], totalCount = 1, currentPage = 1, totalPages = 1\<rparr>"
        acme_world
        new_company_request
        depot_world
        "\<lparr>data = [depot], totalCount = 1, currentPage = 1, totalPages = 1\<rparr>"
        depot_world
        new_sheet_request
        sheet_world
        "\<lparr>data = [sheet ''t1'' ''jan.pdf''], totalCount = 1, currentPage = 1, totalPages = 1\<rparr>"
        sheet_world]
      c1 c2 c3 c4 c5 s1 s2 s3 s4 s5 t1 t2 t3 t4 t5
    by simp
qed

section \<open>Soft-deleted records stay as they are\<close>

lemma replace_first_keeps:
  "\<not> P d \<Longrightarrow> d \<in> set xs \<Longrightarrow> d \<in> set (replace_first P y xs)"
  by (induction xs) auto

lemma replace_first_map:
  "List.find P xs = Some x \<Longrightarrow> f y = f x \<Longrightarrow> map f (replace_first P y xs) = map f xs"
  by (induction xs) (auto split: if_splits)

lemma findOneAndUpdate_frame:
  assumes "findOneAndUpdate sch q upd ds = Inr (r, ds')" "\<not> matches q d" "d \<in> set ds"
  shows "d \<in> set ds'"
  using assms
  by (auto simp: findOneAndUpdate_def Let_def replace_first_keeps split: option.splits if_splits)

lemma findOneAndUpdate_ids:
  assumes "findOneAndUpdate sch q upd ds = Inr (r, ds')"
  shows "map doc_id ds' = map doc_id ds"
  using assms
  by (auto simp: findOneAndUpdate_def findOne_def Let_def replace_first_map split: option.splits if_splits)

lemma findOne_deleted:
  assumes "wf_store ds" "d \<in> set ds" "doc_id d = Some (JStr oid)"
    "map_of d ''isDeleted'' = Some (JBool True)"
  shows "findOne [(''_id'', Equals (JStr oid)), (''isDeleted'', Equals (JBool False))] ds = None"
proof -
  have "\<not> matches [(''_id'', Equals (JStr oid)), (''isDeleted'', Equals (JBool False))] x"
    if "x \<in> set ds" for x
  proof
    assume "matches [(''_id'', Equals (JStr oid)), (''isDeleted'', Equals (JBool False))] x"
    then have "doc_id x = Some (JStr oid)" "map_of x ''isDeleted'' = Some (JBool False)"
      by (simp_all add: matches_live)
    moreover from this(1) have "x = d"
      using wf_same_id[OF assms(1) that assms(2)] assms(3) by simp
    ultimately show False using assms(4) by simp
  qed
  then show ?thesis by (simp add: findOne_def find_None_iff)
qed

lemma findOneAndUpdate_deleted:
  assumes "wf_store ds" "d \<in> set ds" "doc_id d = Some (JStr oid)"
    "map_of d ''isDeleted'' = Some (JBool True)"
  shows "findOneAndUpdate sch [(''_id'', Equals (JStr oid)), (''isDeleted'', Equals (JBool False))] upd ds
           = Inr (None, ds)"
  by (simp add: findOneAndUpdate_def findOne_deleted[OF assms])

lemma not_live: "map_of d ''isDeleted'' = Some (JBool True) \<Longrightarrow>
   \<not> matches [(''_id'', Equals (JStr oid)), (''isDeleted'', Equals (JBool False))] d"
  by (simp add: matches_live)

lemma create_frame: "create sch fresh body ds = Inr (x, ds') \<Longrightarrow> d \<in> set ds \<Longrightarrow> d \<in> set ds'"
  by (auto simp: create_def Let_def split: if_splits)

lemma CustomerRepository_updateCustomer_frame:
  assumes "map_of d ''isDeleted'' = Some (JBool True)" "d \<in> set (docs w)"
  shows "d \<in> set (docs (snd (CustomerRepository_updateCustomer oid payload w)))"
  using assms findOneAndUpdate_frame[OF _ not_live[OF assms(1)] assms(2)]
  by (auto simp: CustomerRepository_updateCustomer_def catch_log_def logError_def
      split: option.splits sum.splits prod.splits)

lemma CustomerRepository_deleteCustomer_frame:
  assumes "map_of d ''isDeleted'' = Some (JBool True)" "d \<in> set (docs w)"
  shows "d \<in> set (docs (snd (CustomerRepository_deleteCustomer oid w)))"
  using assms findOneAndUpdate_frame[OF _ not_live[OF assms(1)] assms(2)]
  by (auto simp: CustomerRepository_deleteCustomer_def catch_log_def logError_def
      split: option.splits sum.splits prod.splits)

lemma CustomerRepository_createCustomer_frame:
  assumes "d \<in> set (docs w)"
  shows "d \<in> set (docs (snd (CustomerRepository_createCustomer fresh body w)))"
  using assms create_frame[OF _ assms]
  by (auto simp: CustomerRepository_createCustomer_def catch_log_def logError_def
      split: option.splits sum.splits prod.splits)

lemma CustomerRepository_getCustomerById_frame:
  "docs (snd (CustomerRepository_getCustomerById oid w)) = docs w"
  by (auto simp: CustomerRepository_getCustomerById_def catch_log_def logError_def
      split: option.splits sum.splits prod.splits)

lemma CustomerRepository_getCustomers_frame:
  "CustomerRepository_getCustomers p s w = Some r \<Longrightarrow> docs (snd r) = docs w"
  by (auto simp: CustomerRepository_getCustomers_def catch_log_def logError_def Let_def
      split: option.splits sum.splits prod.splits if_splits)

lemma ActivityManagerRepository_updateManager_frame:
  assumes "map_of d ''isDeleted'' = Some (JBool True)" "d \<in> set (docs w)"
  shows "d \<in> set (docs (snd (ActivityManagerRepository_updateManager oid payload w)))"
  using assms findOneAndUpdate_frame[OF _ not_live[OF assms(1)] assms(2)]
  by (auto simp: ActivityManagerRepository_updateManager_def catch_log_def logError_def
      split: option.splits sum.splits prod.splits)

lemma ActivityManagerRepository_deleteManager_frame:
  assumes "map_of d ''isDeleted'' = Some (JBool True)" "d \<in> set (docs w)"
  shows "d \<in> set (docs (snd (ActivityManagerRepository_deleteManager oid w)))"
  using assms findOneAndUpdate_frame[OF _ not_live[OF assms(1)] assms(2)]
  by (auto simp: ActivityManagerRepository_deleteManager_def catch_log_def logError_def
      split: option.splits sum.splits prod.splits)

lemma ActivityManagerRepository_createManager_frame:
  assumes "d \<in> set (docs w)"
  shows "d \<in> set (docs (snd (ActivityManagerRepository_createManager fresh body w)))"
  using assms create_frame[OF _ assms]
  by (auto simp: ActivityManagerRepository_createManager_def catch_log_def logError_def
      split: option.splits sum.splits prod.splits)

lemma ActivityManagerRepository_getManagerById_frame:
  "docs (snd (ActivityManagerRepository_getManagerById oid w)) = docs w"
  by (auto simp: ActivityManagerRepository_getManagerById_def catch_log_def logError_def
      split: option.splits sum.splits prod.splits)

lemma ActivityManagerRepository_getActivityManagers_frame:
  "ActivityManagerRepository_getActivityManagers p s w = Some r \<Longrightarrow> docs (snd r) = docs w"
  by (auto simp: ActivityManagerRepository_getActivityManagers_def catch_log_def logError_def Let_def
      split: option.splits sum.splits prod.splits if_splits)

text \<open>
  C9. For Customer and ActivityManager, let \<open>d\<close> be a stored record whose
  \<^verbatim>\<open>isDeleted\<close> flag is true, in a collection with unique identifiers. An update (with
  any payload, also one that sets \<^verbatim>\<open>isDeleted\<close> to false) or a delete addressed to its
  identifier fails with an error (the storage failure if there is one, else the
  repository's own) and leaves the store as it was; and after any operation of the
  repository, with any arguments, \<open>d\<close> is still in the store as it was.
\<close>

theorem soft_deleted_is_frozen:
  assumes "wf_store (docs w)" and "d \<in> set (docs w)" and "doc_id d = Some (JStr oid)"
    and "map_of d ''isDeleted'' = Some (JBool True)"
  shows "fst (CustomerRepository_updateCustomer oid payload w)
           = Inl (case fault w of Some e \<Rightarrow> e | None \<Rightarrow> Error ''Failed to update customer'')
       \<and> docs (snd (CustomerRepository_updateCustomer oid payload w)) = docs w
       \<and> fst (CustomerRepository_deleteCustomer oid w)
           = Inl (case fault w of Some e \<Rightarrow> e | None \<Rightarrow> Error ''Failed to delete customer'')
       \<and> docs (snd (CustomerRepository_deleteCustomer oid w)) = docs w
       \<and> fst (ActivityManagerRepository_updateManager oid payload w)
           = Inl (case fault w of Some e \<Rightarrow> e | None \<Rightarrow> Error ''Failed to update manager'')
       \<and> docs (snd (ActivityManagerRepository_updateManager oid payload w)) = docs w
       \<and> fst (ActivityManagerRepository_deleteManager oid w)
           = Inl (case fault w of Some e \<Rightarrow> e | None \<Rightarrow> Error ''Failed to delete manager'')
       \<and> docs (snd (ActivityManagerRepository_deleteManager oid w)) = docs w
       \<and> d \<in> set (docs (snd (CustomerRepository_updateCustomer oid' payload w)))
       \<and> d \<in> set (docs (snd (CustomerRepository_deleteCustomer oid' w)))
       \<and> d \<in> set (docs (snd (CustomerRepository_createCustomer fresh payload w)))
       \<and> d \<in> set (docs (snd (CustomerRepository_getCustomerById oid' w)))
       \<and> (\<forall>r. CustomerRepository_getCustomers p s w = Some r \<longrightarrow> d \<in> set (docs (snd r)))
       \<and> d \<in> set (docs (snd (ActivityManagerRepository_updateManager oid' payload w)))
       \<and> d \<in> set (docs (snd (ActivityManagerRepository_deleteManager oid' w)))
       \<and> d \<in> set (docs (snd (ActivityManagerRepository_createManager fresh payload w)))
       \<and> d \<in> set (docs (snd (ActivityManagerRepository_getManagerById oid' w)))
       \<and> (\<forall>r. ActivityManagerRepository_getActivityManagers p s w = Some r
              \<longrightarrow> d \<in> set (docs (snd r)))"
proof -
  note gone = findOneAndUpdate_deleted[OF assms]
  have u: "fst (CustomerRepository_updateCustomer oid payload w)
           = Inl (case fault w of Some e \<Rightarrow> e | None \<Rightarrow> Error ''Failed to update customer'')"
    "docs (snd (CustomerRepository_updateCustomer oid payload w)) = docs w"
    by (simp_all add: CustomerRepository_updateCustomer_def gone catch_log_def logError_def
        split: option.splits)
  have x: "fst (CustomerRepository_deleteCustomer oid w)
           = Inl (case fault w of Some e \<Rightarrow> e | None \<Rightarrow> Error ''Failed to delete customer'')"
    "docs (snd (CustomerRepository_deleteCustomer oid w)) = docs w"
    by (simp_all add: CustomerRepository_deleteCustomer_def gone catch_log_def logError_def
        split: option.splits)
  have mu: "fst (ActivityManagerRepository_updateManager oid payload w)
           = Inl (case fault w of Some e \<Rightarrow> e | None \<Rightarrow> Error ''Failed to update manager'')"
    "docs (snd (ActivityManagerRepository_updateManager oid payload w)) = docs w"
    by (simp_all add: ActivityManagerRepository_updateManager_def gone catch_log_def logError_def
        split: option.splits)
  have mx: "fst (ActivityManagerRepository_deleteManager oid w)
           = Inl (case fault w of Some e \<Rightarrow> e | None \<Rightarrow> Error ''Failed to delete manager'')"
    "docs (snd (ActivityManagerRepository_deleteManager oid w)) = docs w"
    by (simp_all add: ActivityManagerRepository_deleteManager_def gone catch_log_def logError_def
        split: option.splits)
  have c: "d \<in> set (docs (snd (CustomerRepository_updateCustomer oid' payload w)))"
    "d \<in> set (docs (snd (CustomerRepository_deleteCustomer oid' w)))"
    "d \<in> set (docs (snd (CustomerRepository_createCustomer fresh payload w)))"
    "d \<in> set (docs (snd (CustomerRepository_getCustomerById oid' w)))"
    "\<forall>r. CustomerRepository_getCustomers p s w = Some r \<longrightarrow> d \<in> set (docs (snd r))"
    using assms(2,4)
    by (simp_all add: CustomerRepository_updateCustomer_frame CustomerRepository_deleteCustomer_frame
        CustomerRepository_createCustomer_frame CustomerRepository_getCustomerById_frame
        CustomerRepository_getCustomers_frame)
  have m: "d \<in> set (docs (snd (ActivityManagerRepository_updateManager oid' payload w)))"
    "d \<in> set (docs (snd (ActivityManagerRepository_deleteManager oid' w)))"
    "d \<in> set (docs (snd (ActivityManagerRepository_createManager fresh payload w)))"
    "d \<in> set (docs (snd (ActivityManagerRepository_getManagerById oid' w)))"
    "\<forall>r. ActivityManagerRepository_getActivityManagers p s w = Some r
              \<longrightarrow> d \<in> set (docs (snd r))"
    using assms(2,4)
    by (simp_all add: ActivityManagerRepository_updateManager_frame
        ActivityManagerRepository_deleteManager_frame ActivityManagerRepository_createManager_frame
        ActivityManagerRepository_getManagerById_frame
        ActivityManagerRepository_getActivityManagers_frame)
  from u x mu mx c m show ?thesis by blast
qed

theorem soft_deleted_is_frozen_witness:
  "fst (CustomerRepository_updateCustomer ''c1'' [(''isDeleted'', JBool False)] struck_world)
     = Inl (Error ''Failed to update customer'')
   \<and> docs (snd (CustomerRepository_updateCustomer ''c1'' [(''isDeleted'', JBool False)] struck_world))
     = [struck]
   \<and> fst (CustomerRepository_deleteCustomer ''c1'' struck_world)
     = Inl (Error ''Failed to delete customer'')
   \<and> docs (snd (CustomerRepository_deleteCustomer ''c1'' struck_world)) = [struck]
   \<and> fst (ActivityManagerRepository_updateManager ''c1'' [(''isDeleted'', JBool False)] struck_world)
     = Inl (Error ''Failed to update manager'')
   \<and> fst (ActivityManagerRepository_deleteManager ''c1'' struck_world)
     = Inl (Error ''Failed to delete manager'')"
  using soft_deleted_is_frozen [of struck_world struck "''c1''" "[(''isDeleted'', JBool False)]"]
  by (simp add: struck_world_def struck_def wf_store_def doc_id_def)

section \<open>Hard delete\<close>

lemma findById_only:
  assumes "wf_store ds" "d \<in> set ds" "doc_id d = Some (JStr oid)"
  shows "findOne [(''_id'', Equals (JStr oid))] ds = Some d"
    and "remove_first (matches [(''_id'', Equals (JStr oid))]) ds = filter (\<lambda>x. x \<noteq> d) ds"
    and "findById oid (filter (\<lambda>x. x \<noteq> d) ds) = None"
proof -
  have only: "x = d" if "x \<in> set ds" "matches [(''_id'', Equals (JStr oid))] x" for x
    using that assms wf_same_id[of ds x d] by (simp add: matches_id)
  have md: "matches [(''_id'', Equals (JStr oid))] d"
    using assms(3) by (simp add: matches_id)
  show "findOne [(''_id'', Equals (JStr oid))] ds = Some d"
    unfolding findOne_def using wf_distinct[OF assms(1)] assms(2) md only by (rule find_unique)
  show "remove_first (matches [(''_id'', Equals (JStr oid))]) ds = filter (\<lambda>x. x \<noteq> d) ds"
    using only wf_distinct[OF assms(1)] md by (rule remove_first_unique)
  show "findById oid (filter (\<lambda>x. x \<noteq> d) ds) = None"
    using only by (auto simp: findById_def findOne_def find_None_iff)
qed

lemma soft_delete_keeps_ids:
  "map doc_id (docs (snd (CustomerRepository_deleteCustomer oid w))) = map doc_id (docs w)"
  "map doc_id (docs (snd (ActivityManagerRepository_deleteManager oid w))) = map doc_id (docs w)"
  by (auto simp: CustomerRepository_deleteCustomer_def ActivityManagerRepository_deleteManager_def
      catch_log_def logError_def findOneAndUpdate_ids split: option.splits sum.splits prod.splits)

lemma replace_first_pointwise:
  "List.find P xs = Some x \<Longrightarrow>
   list_all2 (\<lambda>old new. new = old \<or> new = f old) xs (replace_first P (f x) xs)"
proof (induction xs)
  case Nil
  then show ?case by simp
next
  case (Cons a xs)
  then show ?case by (auto simp: list.rel_refl split: if_splits)
qed

lemma set_flag_pointwise:
  assumes "findOneAndUpdate sch q [(''isDeleted'', JBool True)] ds = Inr (r, ds')"
  shows "list_all2 (\<lambda>old new. new = old \<or> new = AList.update ''isDeleted'' (JBool True) old) ds ds'"
proof (cases "findOne q ds")
  case None
  then show ?thesis using assms by (simp add: findOneAndUpdate_def list.rel_refl)
next
  case (Some x)
  then have "ds' = replace_first (matches q) (AList.update ''isDeleted'' (JBool True) x) ds"
    using assms by (simp add: findOneAndUpdate_def Let_def apply_update_single split: if_splits)
  then show ?thesis
    using replace_first_pointwise[of "matches q" ds x "AList.update ''isDeleted'' (JBool True)"] Some
    by (simp add: findOne_def)
qed

lemma soft_delete_only_flags:
  "list_all2 (\<lambda>old new. new = old \<or> new = AList.update ''isDeleted'' (JBool True) old)
     (docs w) (docs (snd (CustomerRepository_deleteCustomer oid w)))"
  "list_all2 (\<lambda>old new. new = old \<or> new = AList.update ''isDeleted'' (JBool True) old)
     (docs w) (docs (snd (ActivityManagerRepository_deleteManager oid w)))"
  by (auto simp: CustomerRepository_deleteCustomer_def ActivityManagerRepository_deleteManager_def
      catch_log_def logError_def list.rel_refl set_flag_pointwise
      split: option.splits sum.splits prod.splits)

text \<open>
  C7. For ProjectStatus, ServiceCompany and Timesheet: when the identifier is that of a
  stored record \<open>d\<close> of a collection with unique identifiers and the storage layer works,
  the repository's delete returns \<open>d\<close> and removes it from the store, no record with that
  identifier is left, and a following get-by-id fails with the repository's not-found
  error. For Customer and ActivityManager: under the same conditions, on a stored record
  \<open>c\<close> that is not soft-deleted, the repository's delete returns \<open>c\<close> with its
  \<^verbatim>\<open>isDeleted\<close> flag set to true and leaves a store in which \<open>c\<close> is replaced by that
  record and nothing else has changed: the record is still stored, under its identifier.
  And for any identifier and any store, these two deletes keep every stored identifier
  in place and leave each stored record either as it was or with only its flag set.
\<close>

theorem hard_delete_removes:
  assumes "wf_store (docs w)" and "fault w = None"
    and "d \<in> set (docs w)" and "doc_id d = Some (JStr oid)"
    and "wf_store (docs ws)" and "fault ws = None"
    and "c \<in> set (docs ws)" and "doc_id c = Some (JStr cid)"
    and "map_of c ''isDeleted'' = Some (JBool False)"
  defines "rest \<equiv> filter (\<lambda>x. x \<noteq> d) (docs w)"
  defines "c' \<equiv> AList.update ''isDeleted'' (JBool True) c"
  defines "marked \<equiv> map (\<lambda>x. if x = c then c' else x) (docs ws)"
  shows "ProjectStatusRepository_deleteProjectStatus oid w = (Inr d, w\<lparr>docs := rest\<rparr>)
       \<and> fst (ProjectStatusRepository_getProjectStatusById oid (w\<lparr>docs := rest\<rparr>))
           = Inl (Error ''Project Status not found'')
       \<and> ServiceCompanyRepository_deleteServiceCompany oid w = (Inr d, w\<lparr>docs := rest\<rparr>)
       \<and> fst (ServiceCompanyRepository_getServiceCompanyById oid (w\<lparr>docs := rest\<rparr>))
           = Inl (Error ''ServiceCompany not found'')
       \<and> TimesheetRepository_deleteTimesheet oid w = (Inr d, w\<lparr>docs := rest\<rparr>)
       \<and> fst (TimesheetRepository_getTimesheetById oid (w\<lparr>docs := rest\<rparr>))
           = Inl (Error ''Timesheet not found'')
       \<and> d \<notin> set rest
       \<and> list_all (\<lambda>x. doc_id x \<noteq> Some (JStr oid)) rest
       \<and> CustomerRepository_deleteCustomer cid ws = (Inr c', ws\<lparr>docs := marked\<rparr>)
       \<and> ActivityManagerRepository_deleteManager cid ws = (Inr c', ws\<lparr>docs := marked\<rparr>)
       \<and> c' \<in> set marked \<and> length marked = length (docs ws)
       \<and> doc_id c' = doc_id c \<and> map_of c' ''isDeleted'' = Some (JBool True)
       \<and> map doc_id (docs (snd (CustomerRepository_deleteCustomer oid' w'))) = map doc_id (docs w')
       \<and> map doc_id (docs (snd (ActivityManagerRepository_deleteManager oid' w')))
           = map doc_id (docs w')
       \<and> list_all2 (\<lambda>old new. new = old \<or> new = AList.update ''isDeleted'' (JBool True) old)
            (docs w') (docs (snd (CustomerRepository_deleteCustomer oid' w')))
       \<and> list_all2 (\<lambda>old new. new = old \<or> new = AList.update ''isDeleted'' (JBool True) old)
            (docs w') (docs (snd (ActivityManagerRepository_deleteManager oid' w')))"
proof -
  note only = findById_only[OF assms(1,3,4)]
  have del: "findByIdAndDelete oid (docs w) = (Some d, rest)"
    by (simp add: findByIdAndDelete_def only rest_def)
  have get: "findById oid rest = None"
    by (simp add: only rest_def)
  have 1: "ProjectStatusRepository_deleteProjectStatus oid w = (Inr d, w\<lparr>docs := rest\<rparr>)"
    by (simp add: ProjectStatusRepository_deleteProjectStatus_def assms(2) del catch_log_def)
  have 2: "fst (ProjectStatusRepository_getProjectStatusById oid (w\<lparr>docs := rest\<rparr>))
           = Inl (Error ''Project Status not found'')"
    by (simp add: ProjectStatusRepository_getProjectStatusById_def assms(2) get catch_log_def)
  have 3: "ServiceCompanyRepository_deleteServiceCompany oid w = (Inr d, w\<lparr>docs := rest\<rparr>)"
    by (simp add: ServiceCompanyRepository_deleteServiceCompany_def assms(2) del catch_log_def)
  have 4: "fst (ServiceCompanyRepository_getServiceCompanyById oid (w\<lparr>docs := rest\<rparr>))
           = Inl (Error ''ServiceCompany not found'')"
    by (simp add: ServiceCompanyRepository_getServiceCompanyById_def assms(2) get catch_log_def)
  have 5: "TimesheetRepository_deleteTimesheet oid w = (Inr d, w\<lparr>docs := rest\<rparr>)"
    by (simp add: TimesheetRepository_deleteTimesheet_def assms(2) del catch_log_def)
  have 6: "fst (TimesheetRepository_getTimesheetById oid (w\<lparr>docs := rest\<rparr>))
           = Inl (Error ''Timesheet not found'')"
    by (simp add: TimesheetRepository_getTimesheetById_def assms(2) get catch_log_def)
  have 7: "d \<notin> set rest" by (simp add: rest_def)
  have 8: "list_all (\<lambda>x. doc_id x \<noteq> Some (JStr oid)) rest"
    using wf_same_id[OF assms(1) _ assms(3)] assms(4)
    by (auto simp: rest_def list_all_iff)
  have sc: "findOneAndUpdate CustomerSchema
             [(''_id'', Equals (JStr cid)), (''isDeleted'', Equals (JBool False))]
             [(''isDeleted'', JBool True)] (docs ws) = Inr (Some c', marked)"
    unfolding c'_def marked_def using assms(5,7,8,9)
    by (rule soft_delete_step) (simp add: unique_fields_Customer)
  have sm: "findOneAndUpdate ActivityManagerSchema
             [(''_id'', Equals (JStr cid)), (''isDeleted'', Equals (JBool False))]
             [(''isDeleted'', JBool True)] (docs ws) = Inr (Some c', marked)"
    unfolding c'_def marked_def using assms(5,7,8,9)
    by (rule soft_delete_step) (simp add: unique_fields_ActivityManager)
  have 9: "CustomerRepository_deleteCustomer cid ws = (Inr c', ws\<lparr>docs := marked\<rparr>)"
    by (simp add: CustomerRepository_deleteCustomer_def assms(6) sc catch_log_def)
  have 10: "ActivityManagerRepository_deleteManager cid ws = (Inr c', ws\<lparr>docs := marked\<rparr>)"
    by (simp add: ActivityManagerRepository_deleteManager_def assms(6) sm catch_log_def)
  have 11: "c' \<in> set marked" using assms(7) by (auto simp: marked_def)
  have 12: "length marked = length (docs ws)" by (simp add: marked_def)
  have 13: "doc_id c' = doc_id c" by (simp add: c'_def)
  have 14: "map_of c' ''isDeleted'' = Some (JBool True)" by (simp add: c'_def update_conv')
  from 1 2 3 4 5 6 7 8 9 10 11 12 13 14 soft_delete_keeps_ids soft_delete_only_flags
  show ?thesis by blast
qed

theorem hard_delete_removes_witness:
  "ProjectStatusRepository_deleteProjectStatus ''s1'' depot_world = (Inr depot, depot_world\<lparr>docs := []\<rparr>)
   \<and> fst (ProjectStatusRepository_getProjectStatusById ''s1'' (depot_world\<lparr>docs := []\<rparr>))
       = Inl (Error ''Project Status not found'')
   \<and> ServiceCompanyRepository_deleteServiceCompany ''s1'' depot_world = (Inr depot, depot_world\<lparr>docs := []\<rparr>)
   \<and> fst (ServiceCompanyRepository_getServiceCompanyById ''s1'' (depot_world\<lparr>docs := []\<rparr>))
       = Inl (Error ''ServiceCompany not found'')
   \<and> TimesheetRepository_deleteTimesheet ''s1'' depot_world = (Inr depot, depot_world\<lparr>docs := []\<rparr>)
   \<and> fst (TimesheetRepository_getTimesheetById ''s1'' (depot_world\<lparr>docs := []\<rparr>))
       = Inl (Error ''Timesheet not found'')
   \<and> CustomerRepository_deleteCustomer ''c1'' acme_world = (Inr struck, acme_world\<lparr>docs := [struck]\<rparr>)
   \<and> ActivityManagerRepository_deleteManager ''c1'' acme_world
       = (Inr struck, acme_world\<lparr>docs := [struck]\<rparr>)
   \<and> map_of struck ''isDeleted'' = Some (JBool True)
   \<and> map doc_id (docs (snd (CustomerRepository_deleteCustomer ''c1'' struck_world)))
       = map doc_id (docs struck_world)
   \<and> map doc_id (docs (snd (ActivityManagerRepository_deleteManager ''c1'' struck_world)))
       = map doc_id (docs struck_world)"
proof -
  have s: "AList.update ''isDeleted'' (JBool True) acme = struck"
    by (simp add: acme_def struck_def)
  show ?thesis
    using hard_delete_removes [of depot_world depot "''s1''" acme_world acme "''c1''"
        "''c1''" struck_world]
    by (simp add: depot_world_def depot_def acme_world_def wf_store_def doc_id_def s)
       (simp add: acme_def struck_def)
qed

section \<open>Identifiers stay unique\<close>

text \<open>
  The uniqueness of identifiers, which the theorems on deletion assume of the store, is
  kept by every writing operation of the five repositories.
\<close>

lemma create_wf:
  assumes "create sch fresh body ds = Inr (x, ds')" "wf_store ds"
  shows "wf_store ds'"
proof -
  let ?d = "with_defaults sch (with_id fresh body)"
  from assms(1) have ds': "ds' = ds @ [?d]"
    and new: "\<not> list_ex (\<lambda>other. doc_id other = doc_id ?d) ds"
    by (auto simp: create_def Let_def split: if_splits)
  from new have "doc_id ?d \<notin> set (map doc_id ds)"
    by (auto simp: list_ex_iff)
  with assms(2) show ?thesis
    by (simp add: wf_store_def ds')
qed

lemma update_wf:
  assumes "findOneAndUpdate sch q upd ds = Inr (r, ds')" "wf_store ds"
  shows "wf_store ds'"
  using assms findOneAndUpdate_ids[OF assms(1)] by (simp add: wf_store_def)

lemma remove_first_subset: "set (remove_first P xs) \<subseteq> set xs"
  by (induction xs) auto

lemma remove_first_wf: "wf_store ds \<Longrightarrow> wf_store (remove_first P ds)"
  unfolding wf_store_def
proof (induction ds)
  case Nil
  then show ?case by simp
next
  case (Cons a ds)
  then show ?case using remove_first_subset[of P ds] by auto
qed

lemma wf_store_kept:
  assumes "wf_store (docs w)"
  shows "wf_store (docs (snd (CustomerRepository_createCustomer fresh body w)))"
    and "wf_store (docs (snd (CustomerRepository_updateCustomer oid body w)))"
    and "wf_store (docs (snd (CustomerRepository_deleteCustomer oid w)))"
    and "wf_store (docs (snd (ActivityManagerRepository_createManager fresh body w)))"
    and "wf_store (docs (snd (ActivityManagerRepository_updateManager oid body w)))"
    and "wf_store (docs (snd (ActivityManagerRepository_deleteManager oid w)))"
    and "wf_store (docs (snd (ProjectStatusRepository_createProjectStatus fresh body w)))"
    and "wf_store (docs (snd (ProjectStatusRepository_updateProjectStatus oid body w)))"
    and "wf_store (docs (snd (ProjectStatusRepository_deleteProjectStatus oid w)))"
    and "wf_store (docs (snd (ServiceCompanyRepository_createServiceCompany fresh body w)))"
    and "wf_store (docs (snd (ServiceCompanyRepository_updateServiceCompany oid body w)))"
    and "wf_store (docs (snd (ServiceCompanyRepository_deleteServiceCompany oid w)))"
    and "wf_store (docs (snd (TimesheetRepository_createTimesheet fresh body w)))"
    and "wf_store (docs (snd (TimesheetRepository_updateTimesheet oid body w)))"
    and "wf_store (docs (snd (TimesheetRepository_deleteTimesheet oid w)))"
  using assms create_wf[OF _ assms] update_wf[OF _ assms] remove_first_wf[OF assms]
  by (auto simp: CustomerRepository_createCustomer_def CustomerRepository_updateCustomer_def
      CustomerRepository_deleteCustomer_def ActivityManagerRepository_createManager_def
      ActivityManagerRepository_updateManager_def ActivityManagerRepository_deleteManager_def
      ProjectStatusRepository_createProjectStatus_def ProjectStatusRepository_updateProjectStatus_def
      ProjectStatusRepository_deleteProjectStatus_def
      ServiceCompanyRepository_createServiceCompany_def
      ServiceCompanyRepository_updateServiceCompany_def
      ServiceCompanyRepository_deleteServiceCompany_def TimesheetRepository_createTimesheet_def
      TimesheetRepository_updateTimesheet_def TimesheetRepository_deleteTimesheet_def
      findByIdAndUpdate_def findByIdAndDelete_def catch_log_def logError_def
      split: option.splits sum.splits prod.splits)

section \<open>Search\<close>

lemma starts_with_iff: "starts_with xs ys \<longleftrightarrow> (\<exists>post. ys = xs @ post)"
  by (induction xs ys rule: starts_with.induct) auto

lemma contains_iff: "contains xs ys \<longleftrightarrow> (\<exists>pre post. ys = pre @ xs @ post)"
proof (induction ys)
  case Nil
  then show ?case by (cases xs) auto
next
  case (Cons y ys)
  show ?case
  proof
    assume "contains xs (y # ys)"
    then consider "starts_with xs (y # ys)" | "contains xs ys" by auto
    then show "\<exists>pre post. y # ys = pre @ xs @ post"
    proof cases
      case 1
      then obtain post where "y # ys = xs @ post" by (auto simp: starts_with_iff)
      then have "y # ys = [] @ xs @ post" by simp
      then show ?thesis by blast
    next
      case 2
      then obtain pre post where "ys = pre @ xs @ post" using Cons.IH by auto
      then have "y # ys = (y # pre) @ xs @ post" by simp
      then show ?thesis by blast
    qed
  next
    assume "\<exists>pre post. y # ys = pre @ xs @ post"
    then obtain pre post where e: "y # ys = pre @ xs @ post" by auto
    show "contains xs (y # ys)"
    proof (cases pre)
      case Nil
      then have "starts_with xs (y # ys)" using e by (auto simp: starts_with_iff)
      then show ?thesis by simp
    next
      case (Cons a pre')
      then have "ys = pre' @ xs @ post" using e by simp
      then have "contains xs ys" using Cons.IH by blast
      then show ?thesis by simp
    qed
  qed
qed

lemma ci_contains_iff:
  "ci_contains s t \<longleftrightarrow> (\<exists>pre post. map to_lower t = pre @ map to_lower s @ post)"
  by (simp add: ci_contains_def contains_iff)

lemma compile_literal: "literal s \<Longrightarrow> compile_regex s = Some (map Lit s)"
  by (induction s) (auto simp: literal_def metachars_def)

lemma matches_here_literal:
  "matches_here True (map Lit s) t = starts_with (map to_lower s) (map to_lower t)"
  by (induction s t rule: starts_with.induct) (auto simp: fold_case_def)

lemma regex_search_literal:
  "regex_search True (map Lit s) t = contains (map to_lower s) (map to_lower t)"
  by (induction t) (auto simp: matches_here_literal)

lemma cond_holds_literal:
  "literal s \<Longrightarrow> cond_holds (Regex s ''i'') x
     \<longleftrightarrow> (case x of Some (JStr t) \<Rightarrow> ci_contains s t | _ \<Rightarrow> False)"
  by (cases "(Regex s ''i'', x)" rule: cond_holds.cases)
     (auto simp: compile_literal regex_search_literal ci_contains_def)

lemma search_query_matches:
  assumes "literal search"
  shows "matches (base @ (if search \<noteq> [] then [(k, Regex search ''i'')] else [])) d
           \<longleftrightarrow> matches base d \<and> (search = [] \<or> field_contains k search d)"
  using assms by (auto simp: matches_def field_contains_def cond_holds_literal)

lemma search_query_supported:
  assumes "literal search" "query_supported base"
  shows "query_supported (base @ (if search \<noteq> [] then [(k, Regex search ''i'')] else []))"
  using assms by (auto simp: query_supported_def compile_literal)

lemma search_subject_supported:
  "subject_supported (base @ (if search \<noteq> [] then [(k, Regex search ''i'')] else [])) d
     \<longleftrightarrow> subject_supported base d \<and> (search = [] \<or> ascii_field k d)"
proof (cases "map_of d k")
  case None
  then show ?thesis by (simp add: subject_supported_def ascii_field_def)
next
  case (Some v)
  then show ?thesis by (cases v) (simp_all add: subject_supported_def ascii_field_def)
qed

lemma search_listing_supported:
  assumes "literal search" "1 \<le> page p" "1 \<le> limit p"
    "search = [] \<or> list_all (ascii_field k) ds"
    "base = [] \<or> base = [(''isDeleted'', Equals (JBool False))]"
  shows "listing_supported p (base @ (if search \<noteq> [] then [(k, Regex search ''i'')] else [])) ds"
proof -
  have b: "query_supported base" "subject_supported base d" for d
    using assms(5) by (auto simp: query_supported_def subject_supported_def)
  have "list_all (subject_supported (base @ (if search \<noteq> [] then [(k, Regex search ''i'')] else []))) ds"
    unfolding search_subject_supported using assms(4) b(2) by (auto simp: list_all_iff)
  then show ?thesis
    unfolding listing_supported_def
    using assms(2,3) search_query_supported[OF assms(1) b(1)] by simp
qed

lemma filter_fits: "int (length xs) \<le> l \<Longrightarrow> int (length (filter P xs)) \<le> l"
  using length_filter_le[of P xs] by linarith


lemma ceil_div_ceiling: "ceil_div n l = \<lceil>(of_nat n :: real) / of_int l\<rceil>"
  unfolding ceil_div_def
  by (metis ceiling_divide_eq_div of_int_of_nat_eq)

lemma div_bound:
  assumes "(1::int) \<le> l" "- (P - 1) \<le> (- int n) div l"
  shows "int n \<le> (P - 1) * l"
proof -
  have e: "- int n = ((- int n) div l) * l + (- int n) mod l" by simp
  have r: "0 \<le> (- int n) mod l" using assms(1) by simp
  have "(- (P - 1)) * l \<le> ((- int n) div l) * l"
    using assms by (intro mult_right_mono) auto
  then have "- ((P - 1) * l) \<le> ((- int n) div l) * l" by (simp add: algebra_simps)
  with e r show ?thesis by linarith
qed

lemma beyond_last_page:
  assumes "1 \<le> l" "ceil_div (length xs) l < P"
  shows "skip_limit ((P - 1) * l) l xs = []"
proof -
  have "- (P - 1) \<le> (- int (length xs)) div l"
    using assms(2) by (simp add: ceil_div_def)
  then have "int (length xs) \<le> (P - 1) * l"
    using assms(1) by (rule div_bound[rotated])
  then show ?thesis by (simp add: skip_limit_def)
qed

lemma matches_deleted_flag:
  "matches [(''isDeleted'', Equals (JBool False))] d \<longleftrightarrow> map_of d ''isDeleted'' = Some (JBool False)"
  by (simp add: matches_def)

lemma matches_empty: "matches [] d"
  by (simp add: matches_def)

lemma list_paged_plain:
  assumes "literal search" "1 \<le> page p" "1 \<le> limit p" "fault w = None"
    "search = [] \<or> list_all (ascii_field ''name'') (docs w)"
  shows "ProjectStatusRepository_getProjectStatuses p search w
           = Some (Inr \<lparr>data = skip_limit ((page p - 1) * limit p) (limit p) (hits ''name'' search (docs w)),
                        totalCount = length (hits ''name'' search (docs w)),
                        currentPage = page p,
                        totalPages = ceil_div (length (hits ''name'' search (docs w))) (limit p)\<rparr>, w)"
    and "ServiceCompanyRepository_getServiceCompanies p search w
           = Some (Inr \<lparr>data = skip_limit ((page p - 1) * limit p) (limit p) (hits ''name'' search (docs w)),
                        totalCount = length (hits ''name'' search (docs w)),
                        currentPage = page p,
                        totalPages = ceil_div (length (hits ''name'' search (docs w))) (limit p)\<rparr>, w)"
proof -
  have sup: "listing_supported p ([] @ (if search \<noteq> [] then [(''name'', Regex search ''i'')] else []))
               (docs w)"
    using assms(1,2,3,5) by (rule search_listing_supported) simp
  have f: "filter (matches ([] @ (if search \<noteq> [] then [(''name'', Regex search ''i'')] else []))) (docs w)
             = hits ''name'' search (docs w)"
    unfolding hits_def search_query_matches[OF assms(1)] by (simp add: matches_empty)
  show "ProjectStatusRepository_getProjectStatuses p search w
           = Some (Inr \<lparr>data = skip_limit ((page p - 1) * limit p) (limit p) (hits ''name'' search (docs w)),
                        totalCount = length (hits ''name'' search (docs w)),
                        currentPage = page p,
                        totalPages = ceil_div (length (hits ''name'' search (docs w))) (limit p)\<rparr>, w)"
    unfolding ProjectStatusRepository_getProjectStatuses_def Let_def find_docs_def countDocuments_def f
    using sup by (simp add: assms(4) catch_log_def)
  show "ServiceCompanyRepository_getServiceCompanies p search w
           = Some (Inr \<lparr>data = skip_limit ((page p - 1) * limit p) (limit p) (hits ''name'' search (docs w)),
                        totalCount = length (hits ''name'' search (docs w)),
                        currentPage = page p,
                        totalPages = ceil_div (length (hits ''name'' search (docs w))) (limit p)\<rparr>, w)"
    unfolding ServiceCompanyRepository_getServiceCompanies_def Let_def find_docs_def countDocuments_def f
    using sup by (simp add: assms(4) catch_log_def)
qed

lemma list_paged_live:
  assumes "literal search" "1 \<le> page p" "1 \<le> limit p" "fault w = None"
    "search = [] \<or> list_all (ascii_field ''name'') (docs w)"
  shows "CustomerRepository_getCustomers p search w
           = Some (Inr \<lparr>data = skip_limit ((page p - 1) * limit p) (limit p) (live_hits ''name'' search (docs w)),
                        totalCount = length (live_hits ''name'' search (docs w)),
                        currentPage = page p,
                        totalPages = ceil_div (length (live_hits ''name'' search (docs w))) (limit p)\<rparr>, w)"
    and "ActivityManagerRepository_getActivityManagers p search w
           = Some (Inr \<lparr>data = skip_limit ((page p - 1) * limit p) (limit p) (live_hits ''name'' search (docs w)),
                        totalCount = length (live_hits ''name'' search (docs w)),
                        currentPage = page p,
                        totalPages = ceil_div (length (live_hits ''name'' search (docs w))) (limit p)\<rparr>, w)"
proof -
  let ?q = "[(''isDeleted'', Equals (JBool False))] @ (if search \<noteq> [] then [(''name'', Regex search ''i'')] else [])"
  have sup: "listing_supported p ?q (docs w)"
    using assms(1,2,3,5) by (rule search_listing_supported) simp
  have f: "filter (matches ?q) (docs w) = live_hits ''name'' search (docs w)"
    unfolding live_hits_def search_query_matches[OF assms(1)] by (simp add: matches_deleted_flag)
  show "CustomerRepository_getCustomers p search w
           = Some (Inr \<lparr>data = skip_limit ((page p - 1) * limit p) (limit p) (live_hits ''name'' search (docs w)),
                        totalCount = length (live_hits ''name'' search (docs w)),
                        currentPage = page p,
                        totalPages = ceil_div (length (live_hits ''name'' search (docs w))) (limit p)\<rparr>, w)"
    unfolding CustomerRepository_getCustomers_def Let_def find_docs_def countDocuments_def f
    using sup by (simp add: assms(4) catch_log_def)
  show "ActivityManagerRepository_getActivityManagers p search w
           = Some (Inr \<lparr>data = skip_limit ((page p - 1) * limit p) (limit p) (live_hits ''name'' search (docs w)),
                        totalCount = length (live_hits ''name'' search (docs w)),
                        currentPage = page p,
                        totalPages = ceil_div (length (live_hits ''name'' search (docs w))) (limit p)\<rparr>, w)"
    unfolding ActivityManagerRepository_getActivityManagers_def Let_def find_docs_def countDocuments_def f
    using sup by (simp add: assms(4) catch_log_def)
qed





section \<open>Pagination of the list operations\<close>

lemma paged_lists_beyond_last_page:
  assumes "literal search" "1 \<le> page p" "1 \<le> limit p" "fault w = None"
    "search = [] \<or> list_all (ascii_field ''name'') (docs w)"
  shows "ceil_div (length (hits ''name'' search (docs w))) (limit p) < page p \<Longrightarrow>
         ProjectStatusRepository_getProjectStatuses p search w
           = Some (Inr \<lparr>data = [], totalCount = length (hits ''name'' search (docs w)),
                        currentPage = page p,
                        totalPages = ceil_div (length (hits ''name'' search (docs w))) (limit p)\<rparr>, w)"
    and "ceil_div (length (hits ''name'' search (docs w))) (limit p) < page p \<Longrightarrow>
         ServiceCompanyRepository_getServiceCompanies p search w
           = Some (Inr \<lparr>data = [], totalCount = length (hits ''name'' search (docs w)),
                        currentPage = page p,
                        totalPages = ceil_div (length (hits ''name'' search (docs w))) (limit p)\<rparr>, w)"
    and "ceil_div (length (live_hits ''name'' search (docs w))) (limit p) < page p \<Longrightarrow>
         CustomerRepository_getCustomers p search w
           = Some (Inr \<lparr>data = [], totalCount = length (live_hits ''name'' search (docs w)),
                        currentPage = page p,
                        totalPages = ceil_div (length (live_hits ''name'' search (docs w))) (limit p)\<rparr>, w)"
    and "ceil_div (length (live_hits ''name'' search (docs w))) (limit p) < page p \<Longrightarrow>
         ActivityManagerRepository_getActivityManagers p search w
           = Some (Inr \<lparr>data = [], totalCount = length (live_hits ''name'' search (docs w)),
                        currentPage = page p,
                        totalPages = ceil_div (length (live_hits ''name'' search (docs w))) (limit p)\<rparr>, w)"
  using list_paged_plain[OF assms] list_paged_live[OF assms] beyond_last_page[OF assms(3)]
  by simp_all

text \<open>
  C2. The claim: for every entity's list operation, a page beyond the last one
  (\<open>page > ceil(N / limit)\<close>) yields an empty data array and no error. The list
  operations of ProjectStatus, ServiceCompany, Customer and ActivityManager do so
  (\<open>paged_lists_beyond_last_page\<close>). \<^verbatim>\<open>TimesheetRepository.getTimesheets\<close> does not: its
  query has no \<^verbatim>\<open>skip\<close> and no \<^verbatim>\<open>limit\<close>, so on a store of one timesheet, page 2 with
  limit 1 (where \<open>totalPages\<close> is 1) returns that timesheet.
\<close>

theorem timesheets_page_beyond_last:
  "TimesheetRepository_getTimesheets second_page [] sheet_world
     = Some (Inr \<lparr>data = [sheet ''t1'' ''jan.pdf''], totalCount = 1, currentPage = 2,
                  totalPages = 1\<rparr>, sheet_world)"
  by (simp add: TimesheetRepository_getTimesheets_def storage_defs second_page_def sheet_world_def)

text \<open>
  C3. The claim: for every entity's list operation with positive \<open>page\<close> and \<open>limit\<close>,
  the returned records start at offset \<open>(page - 1) * limit\<close> of the matching records, at
  most \<open>limit\<close> of them are returned, and \<open>totalPages\<close> is \<open>ceil(totalCount / limit)\<close>.
  The list operations of ProjectStatus, ServiceCompany, Customer and ActivityManager do so
  (\<open>list_paged_plain\<close>, \<open>list_paged_live\<close>, \<open>ceil_div_ceiling\<close>), with no bound on
  \<open>limit\<close>. \<^verbatim>\<open>TimesheetRepository.getTimesheets\<close> computes \<open>totalPages\<close> so but returns
  every matching record: on a store of three timesheets, page 2 with limit 1 returns all
  three, where the offset and the limit select the second alone.
\<close>

theorem timesheets_not_paged:
  "TimesheetRepository_getTimesheets second_page [] three_sheets_world
     = Some (Inr \<lparr>data = [sheet ''t1'' ''jan.pdf'', sheet ''t2'' ''feb.pdf'', sheet ''t3'' ''mar.pdf''],
                  totalCount = 3, currentPage = 2, totalPages = 3\<rparr>, three_sheets_world)
   \<and> skip_limit ((page second_page - 1) * limit second_page) (limit second_page)
        (docs three_sheets_world) = [sheet ''t2'' ''feb.pdf'']"
  by (simp add: TimesheetRepository_getTimesheets_def storage_defs second_page_def
      three_sheets_world_def)

section \<open>Logging of failures\<close>

text \<open>
  Every repository method is its body under \<open>catch_log\<close>: the outcome of the body is
  the outcome of the method, an error is logged once under the method's label, and a
  result leaves the log as it was.
\<close>

lemma catch_log_rethrows:
  "fst (catch_log label rw) = fst rw"
  "fst rw = Inl e \<Longrightarrow> snd (catch_log label rw) = logError e label (snd rw)"
  "fst rw = Inr x \<Longrightarrow> catch_log label rw = rw"
  by (simp_all add: catch_log_def split: sum.splits)

text \<open>
  C6. The claim: every failure of a repository method is logged under the label
  \<^verbatim>\<open><Entity>Repository-<operation>\<close>, with the repository's own entity name and the
  operation's name, and rethrown unchanged. The error is rethrown unchanged by every
  method (\<open>catch_log_rethrows\<close>), but \<^verbatim>\<open>ActivityManagerRepository.getActivityManagers\<close> logs
  under \<^verbatim>\<open>ManagerRepository-getManagers\<close>, which names neither the operation nor the
  repository: here on a store whose calls fail.
\<close>

theorem manager_list_label:
  "ActivityManagerRepository_getActivityManagers no_pagination [] down_world
     = Some (Inl (StorageError ''connection lost''),
             down_world\<lparr>errlog := [(''ManagerRepository-getManagers'', StorageError ''connection lost'')]\<rparr>)
   \<and> ''ManagerRepository-getManagers'' \<noteq> structured_label ''ActivityManager'' ''getActivityManagers''
   \<and> ''ManagerRepository-getManagers'' \<noteq> structured_label ''Manager'' ''getActivityManagers''"
  by (simp add: ActivityManagerRepository_getActivityManagers_def storage_defs no_pagination_def
      down_world_def structured_label_def)

end
